theory Spec2Isabelle
  imports Complex_Main
begin

section \<open>Python strings\<close>

text \<open>
  A Python \<^verbatim>\<open>str\<close> is a sequence of Unicode code points and \<^verbatim>\<open>len\<close> counts them, so a
  string is a list of code points here. \<open>py\<close> turns a literal of ASCII characters into
  such a list.
\<close>

type_synonym pystr = "nat list"

abbreviation (input) py :: "string \<Rightarrow> pystr" where
  "py s \<equiv> map of_char s"

text \<open>The character classes of the regular expressions \<^verbatim>\<open>[a-z]\<close>, \<^verbatim>\<open>[A-Z]\<close>,
  \<^verbatim>\<open>[0-9]\<close> and \<^verbatim>\<open>[^a-zA-Z0-9]\<close>; the negated class matches every other code point,
  the line feed included.\<close>

definition is_lower :: "nat \<Rightarrow> bool" where
  "is_lower c = (97 \<le> c \<and> c \<le> 122)"

definition is_upper :: "nat \<Rightarrow> bool" where
  "is_upper c = (65 \<le> c \<and> c \<le> 90)"

definition is_digit :: "nat \<Rightarrow> bool" where
  "is_digit c = (48 \<le> c \<and> c \<le> 57)"

definition is_special :: "nat \<Rightarrow> bool" where
  "is_special c = (\<not> (is_lower c \<or> is_upper c \<or> is_digit c))"

text \<open>\<^verbatim>\<open>re.search\<close> with a pattern that is one character class: some character of the
  string is in the class.\<close>

definition re_search_class :: "(nat \<Rightarrow> bool) \<Rightarrow> pystr \<Rightarrow> bool" where
  "re_search_class cls s = list_ex cls s"

text \<open>
  \<^verbatim>\<open>str.lower()\<close>. A code point below 128 is mapped by the ASCII rule (\<^verbatim>\<open>A\<close>-\<^verbatim>\<open>Z\<close> to
  \<^verbatim>\<open>a\<close>-\<^verbatim>\<open>z\<close>, everything else fixed). Above that Python consults the Unicode
  character database, which is no part of the repository: it is the parameter \<open>ucd\<close>,
  which gives, for a string and a position in it, the code points that replace the
  character at that position (one character may become several, and the capital sigma
  depends on its neighbours).
\<close>

definition ascii_lower :: "nat \<Rightarrow> nat" where
  "ascii_lower c = (if is_upper c then c + 32 else c)"

definition str_lower :: "(pystr \<Rightarrow> nat \<Rightarrow> pystr) \<Rightarrow> pystr \<Rightarrow> pystr" where
  "str_lower ucd s =
     concat (map (\<lambda>i. if s ! i < 128 then [ascii_lower (s ! i)] else ucd s i) [0..<length s])"

text \<open>
  \<^verbatim>\<open>re.search(r'(.)\1{2,}', s)\<close>: a character matched by the dot, followed by at least two
  copies of itself. Without \<^verbatim>\<open>re.DOTALL\<close> the dot matches every character except the line
  feed (code point 10).
\<close>

fun re_search_repeat :: "pystr \<Rightarrow> bool" where
  "re_search_repeat (a # b # c # s) =
     ((a \<noteq> 10 \<and> b = a \<and> c = a) \<or> re_search_repeat (b # c # s))"
| "re_search_repeat _ = False"

text \<open>
  A literal ASCII character \<open>p\<close> of a pattern compiled with \<^verbatim>\<open>re.IGNORECASE\<close> against a
  character \<open>t\<close> of the text. For a string pattern the flag works on Unicode: besides
  the two ASCII cases of a letter, \<^verbatim>\<open>s\<close> matches U+017F, \<^verbatim>\<open>k\<close> matches U+212A and
  \<^verbatim>\<open>i\<close> matches U+0130 and U+0131. A character without case matches itself only.
\<close>

definition ignorecase_eq :: "nat \<Rightarrow> nat \<Rightarrow> bool" where
  "ignorecase_eq p t =
     (t = p \<or> (is_lower p \<and> t + 32 = p) \<or> (is_upper p \<and> t = p + 32)
      \<or> (ascii_lower p = 115 \<and> t = 383)
      \<or> (ascii_lower p = 107 \<and> t = 8490)
      \<or> (ascii_lower p = 105 \<and> (t = 304 \<or> t = 305)))"

fun match_literal :: "pystr \<Rightarrow> pystr \<Rightarrow> bool" where
  "match_literal [] s = True"
| "match_literal (p # ps) [] = False"
| "match_literal (p # ps) (t # s) = (ignorecase_eq p t \<and> match_literal ps s)"

text \<open>\<^verbatim>\<open>re.search\<close> with an alternation of literals and \<^verbatim>\<open>re.IGNORECASE\<close>: one of the
  alternatives matches at some position of the string.\<close>

fun re_search_alternatives :: "pystr list \<Rightarrow> pystr \<Rightarrow> bool" where
  "re_search_alternatives alts [] = list_ex (\<lambda>a. match_literal a []) alts"
| "re_search_alternatives alts (t # s) =
     (list_ex (\<lambda>a. match_literal a (t # s)) alts \<or> re_search_alternatives alts s)"

definition sequence_patterns :: "pystr list" where
  "sequence_patterns = [py ''123'', py ''abc'', py ''qwe'', py ''asd'', py ''zxc'']"

section \<open>The analyzer\<close>

text \<open>\<^verbatim>\<open>PasswordAnalyzer.__init__\<close>: the list of common passwords.\<close>

definition common_passwords :: "pystr list" where
  "common_passwords =
     [py ''password'', py ''123456'', py ''password123'', py ''admin'', py ''qwerty'',
      py ''letmein'', py ''welcome'', py ''monkey'', py ''1234567890'', py ''abc123'',
      py ''password1'', py ''123456789'', py ''welcome123'', py ''admin123'', py ''root'',
      py ''toor'', py ''pass'', py ''test'', py ''guest'', py ''login'', py ''master'',
      py ''hello'', py ''sunshine'', py ''princess'', py ''football'', py ''charlie'',
      py ''aa123456'']"

text \<open>
  \<^verbatim>\<open>check_criteria\<close> returns a dictionary from criterion names to dictionaries with the
  keys \<^verbatim>\<open>met\<close>, \<^verbatim>\<open>label\<close> and \<^verbatim>\<open>description\<close>. The inner dictionary is a record; the outer
  one is an association list in insertion order, which is the order in which Python
  iterates over it.
\<close>

record criterion =
  met :: bool
  label :: pystr
  description :: pystr

type_synonym criteria = "(pystr \<times> criterion) list"

definition check_criteria :: "(pystr \<Rightarrow> nat \<Rightarrow> pystr) \<Rightarrow> pystr \<Rightarrow> criteria" where
  "check_criteria ucd password =
     [(py ''length_8'',
        \<lparr>met = (length password \<ge> 8),
         label = py ''Minimum 8 characters'',
         description = py ''Longer passwords are harder to crack''\<rparr>),
      (py ''length_12'',
        \<lparr>met = (length password \<ge> 12),
         label = py ''12+ characters (recommended)'',
         description = py ''Significantly increases security''\<rparr>),
      (py ''lowercase'',
        \<lparr>met = re_search_class is_lower password,
         label = py ''Lowercase letters'',
         description = py ''Include a-z characters''\<rparr>),
      (py ''uppercase'',
        \<lparr>met = re_search_class is_upper password,
         label = py ''Uppercase letters'',
         description = py ''Include A-Z characters''\<rparr>),
      (py ''numbers'',
        \<lparr>met = re_search_class is_digit password,
         label = py ''Numbers'',
         description = py ''Include 0-9 digits''\<rparr>),
      (py ''special_chars'',
        \<lparr>met = re_search_class is_special password,
         label = py ''Special characters'',
         description = py ''Include symbols like !@#$%''\<rparr>),
      (py ''not_common'',
        \<lparr>met = (str_lower ucd password \<notin> set common_passwords),
         label = py ''Not a common password'',
         description = py ''Avoid easily guessable passwords''\<rparr>),
      (py ''no_repeats'',
        \<lparr>met = (\<not> re_search_repeat password),
         label = py ''No repeated characters'',
         description = py ''Avoid patterns like '' @ [39] @ py ''aaa'' @ [39] @ py '' or ''
                       @ [39] @ py ''111'' @ [39]\<rparr>),
      (py ''no_sequences'',
        \<lparr>met = (\<not> re_search_alternatives sequence_patterns password),
         label = py ''No sequential patterns'',
         description = py ''Avoid keyboard patterns''\<rparr>)]"

text \<open>The exceptions that the analyzer's own operations can raise.\<close>

datatype error = ZeroDivisionError | OverflowError | KeyError

text \<open>\<^verbatim>\<open>criteria[key]\<close>: the entry under the key, or \<^verbatim>\<open>KeyError\<close>; and
  \<^verbatim>\<open>criteria[key]["met"]\<close>.\<close>

definition getitem :: "criteria \<Rightarrow> pystr \<Rightarrow> error + criterion" where
  "getitem d key = (case map_of d key of None \<Rightarrow> Inl KeyError | Some c \<Rightarrow> Inr c)"

definition getitem_met :: "criteria \<Rightarrow> pystr \<Rightarrow> error + bool" where
  "getitem_met d key = (case getitem d key of Inl e \<Rightarrow> Inl e | Inr c \<Rightarrow> Inr (met c))"

section \<open>Floating-point arithmetic\<close>

text \<open>
  \<^verbatim>\<open>calculate_score\<close> and \<^verbatim>\<open>estimate_crack_time\<close> divide two integers with \<^verbatim>\<open>/\<close>, which
  gives a Python \<^verbatim>\<open>float\<close>: an IEEE 754 binary64 number. A finite float is the rational
  number it denotes. \<open>flog2 q\<close> is the exponent \<open>e\<close> with \<open>2 powi e \<le> q < 2 powi (e + 1)\<close>
  of a positive \<open>q\<close>; \<open>ulp q\<close> is the distance between neighbouring binary64 numbers at
  \<open>q\<close> (53 significant bits, and the fixed spacing of the subnormal numbers below
  \<open>2 powi - 1022\<close>); \<open>round_double\<close> rounds to the nearest multiple of it, a tie going
  to the even multiple, which is the rounding of every operation below.
\<close>

function flog2 :: "rat \<Rightarrow> int" where
  "flog2 q = (if q \<le> 0 then 0
              else if 2 \<le> q then flog2 (q / 2) + 1
              else if q < 1 then flog2 (q * 2) - 1
              else 0)"
  by pat_completeness auto
termination
proof (relation "measure (\<lambda>q. nat (2 * \<lceil>1 / q\<rceil> + \<lfloor>q\<rfloor>))")
  show "wf (measure (\<lambda>q. nat (2 * \<lceil>1 / q\<rceil> + \<lfloor>q\<rfloor>)))" by simp
next
  fix q :: rat assume a: "\<not> q \<le> 0" "2 \<le> q"
  have c1: "\<lceil>1 / (q / 2)\<rceil> = 1" using a by (simp add: ceiling_eq_iff)
  have c2: "\<lceil>1 / q\<rceil> = 1" using a by (simp add: ceiling_eq_iff field_simps)
  have "q / 2 \<le> q - 1" using a by simp
  then have "\<lfloor>q / 2\<rfloor> \<le> \<lfloor>q - 1\<rfloor>" by (rule floor_mono)
  then have f: "\<lfloor>q / 2\<rfloor> < \<lfloor>q\<rfloor>" by simp
  have "0 \<le> \<lfloor>q / 2\<rfloor>" using a by simp
  then show "(q / 2, q) \<in> measure (\<lambda>q. nat (2 * \<lceil>1 / q\<rceil> + \<lfloor>q\<rfloor>))"
    using f unfolding in_measure c1 c2 by linarith
next
  fix q :: rat assume a: "\<not> q \<le> 0" "\<not> 2 \<le> q" "q < 1"
  have f0: "\<lfloor>q\<rfloor> = 0" using a by (simp add: floor_eq_iff)
  show "(q * 2, q) \<in> measure (\<lambda>q. nat (2 * \<lceil>1 / q\<rceil> + \<lfloor>q\<rfloor>))"
  proof (cases "q < 1 / 2")
    case True
    then have f1: "\<lfloor>q * 2\<rfloor> = 0" using a by (simp add: floor_eq_iff)
    have "1 / (q * 2) \<le> 1 / q - 1" using a True by (simp add: field_simps)
    then have "\<lceil>1 / (q * 2)\<rceil> \<le> \<lceil>1 / q - 1\<rceil>" by (rule ceiling_mono)
    then have c: "\<lceil>1 / (q * 2)\<rceil> < \<lceil>1 / q\<rceil>" by simp
    have "0 < \<lceil>1 / (q * 2)\<rceil>" using a by simp
    then show ?thesis using c unfolding in_measure f0 f1 by linarith
  next
    case False
    then have f1: "\<lfloor>q * 2\<rfloor> = 1" using a by (simp add: floor_eq_iff)
    have c1: "\<lceil>1 / (q * 2)\<rceil> = 1" using a False by (simp add: ceiling_eq_iff field_simps)
    have c2: "\<lceil>1 / q\<rceil> = 2" using a False by (simp add: ceiling_eq_iff field_simps)
    show ?thesis unfolding in_measure f0 f1 c1 c2 by simp
  qed
qed

declare flog2.simps [simp del]

definition round_half_even :: "rat \<Rightarrow> int" where
  "round_half_even x =
     (let f = \<lfloor>x\<rfloor>; r = x - of_int f
      in if r < 1 / 2 then f else if 1 / 2 < r then f + 1 else if even f then f else f + 1)"

definition ulp :: "rat \<Rightarrow> rat" where
  "ulp q = 2 powi (max (flog2 \<bar>q\<bar>) (- 1022) - 52)"

definition round_double :: "rat \<Rightarrow> rat" where
  "round_double q = (if q = 0 then 0 else of_int (round_half_even (q / ulp q)) * ulp q)"

text \<open>
  The result of an operation on finite floats: the rounded value, or an infinity when it
  is beyond the largest binary64 number.
\<close>

datatype pyfloat = Finite rat | PosInf | NegInf

definition to_float :: "rat \<Rightarrow> pyfloat" where
  "to_float q =
     (let r = round_double q
      in if 2 ^ 1024 \<le> r then PosInf else if r \<le> - (2 ^ 1024) then NegInf else Finite r)"

text \<open>
  \<^verbatim>\<open>a / b\<close> on two \<^verbatim>\<open>int\<close>s: the correctly rounded quotient. Python raises
  \<^verbatim>\<open>ZeroDivisionError\<close> for a zero divisor and \<^verbatim>\<open>OverflowError\<close> ("integer division result
  too large for a float") where the rounded quotient is no finite float.
\<close>

definition int_true_divide :: "int \<Rightarrow> int \<Rightarrow> error + rat" where
  "int_true_divide a b =
     (if b = 0 then Inl ZeroDivisionError
      else case to_float (of_int a / of_int b) of
             Finite r \<Rightarrow> Inr r
           | _ \<Rightarrow> Inl OverflowError)"

text \<open>\<^verbatim>\<open>x * n\<close> and \<^verbatim>\<open>x / n\<close> for a finite float \<open>x\<close> and a small integer constant \<open>n\<close>,
  which converts to a float exactly.\<close>

definition float_mul :: "rat \<Rightarrow> int \<Rightarrow> pyfloat" where
  "float_mul x n = to_float (x * of_int n)"

definition float_div :: "rat \<Rightarrow> int \<Rightarrow> error + pyfloat" where
  "float_div x n = (if n = 0 then Inl ZeroDivisionError else Inr (to_float (x / of_int n)))"

text \<open>\<^verbatim>\<open>int(x)\<close> truncates towards zero and raises \<^verbatim>\<open>OverflowError\<close> on an infinity.\<close>

fun int_of_float :: "pyfloat \<Rightarrow> error + int" where
  "int_of_float (Finite r) = Inr (if 0 \<le> r then \<lfloor>r\<rfloor> else \<lceil>r\<rceil>)"
| "int_of_float PosInf = Inl OverflowError"
| "int_of_float NegInf = Inl OverflowError"

text \<open>The decimal digits of an integer, as \<^verbatim>\<open>str\<close> and the f-strings print it.\<close>

fun digits :: "nat \<Rightarrow> pystr" where
  "digits n = (if n < 10 then [48 + n] else digits (n div 10) @ [48 + n mod 10])"

declare digits.simps [simp del]

definition str_int :: "int \<Rightarrow> pystr" where
  "str_int i = (if i < 0 then 45 # digits (nat (- i)) else digits (nat i))"

section \<open>Score, strength level and crack time\<close>

text \<open>
  \<^verbatim>\<open>calculate_score\<close>: \<^verbatim>\<open>min(100, int((met_criteria / len(criteria)) * 100))\<close>, with the
  division and the multiplication in floating point.
\<close>

definition calculate_score :: "criteria \<Rightarrow> error + int" where
  "calculate_score criteria =
     (let met_criteria = int (length (filter met (map snd criteria)))
      in case int_true_divide met_criteria (int (length criteria)) of
           Inl e \<Rightarrow> Inl e
         | Inr ratio \<Rightarrow>
             (case int_of_float (float_mul ratio 100) of
                Inl e \<Rightarrow> Inl e
              | Inr n \<Rightarrow> Inr (min 100 n)))"

definition get_strength_level :: "int \<Rightarrow> pystr \<times> pystr" where
  "get_strength_level score =
     (if score \<ge> 80 then (py ''Very Strong'', [128994])
      else if score \<ge> 60 then (py ''Strong'', [128309])
      else if score \<ge> 40 then (py ''Moderate'', [128993])
      else if score \<ge> 20 then (py ''Weak'', [128992])
      else (py ''Very Weak'', [128308]))"

text \<open>The f-strings of \<^verbatim>\<open>estimate_crack_time\<close>: \<^verbatim>\<open>int(x)\<close>, printed, and the unit.\<close>

definition format_time :: "pyfloat \<Rightarrow> pystr \<Rightarrow> error + pystr" where
  "format_time x unit =
     (case int_of_float x of Inl e \<Rightarrow> Inl e | Inr n \<Rightarrow> Inr (str_int n @ unit))"

definition format_time_div :: "rat \<Rightarrow> int \<Rightarrow> pystr \<Rightarrow> error + pystr" where
  "format_time_div x d unit =
     (case float_div x d of Inl e \<Rightarrow> Inl e | Inr y \<Rightarrow> format_time y unit)"

definition estimate_crack_time :: "pystr \<Rightarrow> error + pystr" where
  "estimate_crack_time password =
     (if password = [] then Inr (py ''N/A'')
      else
        let charset_size = (0::int);
            charset_size = (if re_search_class is_lower password
                            then charset_size + 26 else charset_size);
            charset_size = (if re_search_class is_upper password
                            then charset_size + 26 else charset_size);
            charset_size = (if re_search_class is_digit password
                            then charset_size + 10 else charset_size);
            charset_size = (if re_search_class is_special password
                            then charset_size + 32 else charset_size)
        in if charset_size = 0 then Inr (py ''Instantly'')
           else
             let combinations = charset_size ^ length password;
                 guesses_per_second = (1000000000::int)
             in (case int_true_divide combinations (2 * guesses_per_second) of
                  Inl e \<Rightarrow> Inl e
                | Inr seconds_to_crack \<Rightarrow>
                    if seconds_to_crack < 1 then Inr (py ''Instantly'')
                    else if seconds_to_crack < 60 then
                      format_time (Finite seconds_to_crack) (py '' seconds'')
                    else if seconds_to_crack < 3600 then
                      format_time_div seconds_to_crack 60 (py '' minutes'')
                    else if seconds_to_crack < 86400 then
                      format_time_div seconds_to_crack 3600 (py '' hours'')
                    else if seconds_to_crack < 31536000 then
                      format_time_div seconds_to_crack 86400 (py '' days'')
                    else if seconds_to_crack < 31536000000 then
                      format_time_div seconds_to_crack 31536000 (py '' years'')
                    else Inr (py ''Centuries'')))"

section \<open>Warnings and suggestions\<close>

text \<open>
  \<^verbatim>\<open>get_warnings_and_suggestions\<close> appends to two lists in a fixed order. It reads four
  entries of the criteria dictionary it is given and raises \<^verbatim>\<open>KeyError\<close> at the first
  one that is missing; the other four checks look at the password itself.
\<close>

definition get_warnings_and_suggestions ::
  "(pystr \<Rightarrow> nat \<Rightarrow> pystr) \<Rightarrow> pystr \<Rightarrow> criteria \<Rightarrow> error + (pystr list \<times> pystr list)" where
  "get_warnings_and_suggestions ucd password criteria =
     (let warnings = [];
          suggestions = [];
          (warnings, suggestions) =
            (if length password < 8
             then (warnings @ [py ''Password is too short''],
                   suggestions @ [py ''Use at least 8 characters''])
             else (warnings, suggestions))
      in (case getitem_met criteria (py ''lowercase'') of
            Inl e \<Rightarrow> Inl e
          | Inr met_lowercase \<Rightarrow>
     (let suggestions = (if \<not> met_lowercase
                         then suggestions @ [py ''Add lowercase letters'']
                         else suggestions)
      in (case getitem_met criteria (py ''uppercase'') of
            Inl e \<Rightarrow> Inl e
          | Inr met_uppercase \<Rightarrow>
     (let suggestions = (if \<not> met_uppercase
                         then suggestions @ [py ''Add uppercase letters'']
                         else suggestions)
      in (case getitem_met criteria (py ''numbers'') of
            Inl e \<Rightarrow> Inl e
          | Inr met_numbers \<Rightarrow>
     (let suggestions = (if \<not> met_numbers
                         then suggestions @ [py ''Add numbers'']
                         else suggestions)
      in (case getitem_met criteria (py ''special_chars'') of
            Inl e \<Rightarrow> Inl e
          | Inr met_special_chars \<Rightarrow>
     (let suggestions = (if \<not> met_special_chars
                         then suggestions @ [py ''Add special characters'']
                         else suggestions);
          (warnings, suggestions) =
            (if str_lower ucd password \<in> set common_passwords
             then (warnings @ [py ''This is a commonly used password''],
                   suggestions @ [py ''Choose a unique password''])
             else (warnings, suggestions));
          (warnings, suggestions) =
            (if re_search_repeat password
             then (warnings @ [py ''Contains repeated characters''],
                   suggestions @ [py ''Avoid character repetition''])
             else (warnings, suggestions));
          (warnings, suggestions) =
            (if re_search_alternatives sequence_patterns password
             then (warnings @ [py ''Contains keyboard patterns''],
                   suggestions @ [py ''Avoid sequential patterns''])
             else (warnings, suggestions))
      in Inr (warnings, suggestions))))))))))"

section \<open>The complete analysis\<close>

record analysis =
  password :: pystr
  score :: int
  strength :: pystr
  color_emoji :: pystr
  crack_time :: pystr
  criteria :: criteria
  warnings :: "pystr list"
  suggestions :: "pystr list"

text \<open>\<^verbatim>\<open>analyze_password\<close> calls the five operations in order; the first exception ends
  the call.\<close>

definition analyze_password :: "(pystr \<Rightarrow> nat \<Rightarrow> pystr) \<Rightarrow> pystr \<Rightarrow> error + analysis" where
  "analyze_password ucd pw =
     (let crit = check_criteria ucd pw
      in (case calculate_score crit of
            Inl e \<Rightarrow> Inl e
          | Inr sc \<Rightarrow>
     (let (strength_label, emoji) = get_strength_level sc
      in (case estimate_crack_time pw of
            Inl e \<Rightarrow> Inl e
          | Inr ct \<Rightarrow>
         (case get_warnings_and_suggestions ucd pw crit of
            Inl e \<Rightarrow> Inl e
          | Inr (ws, ss) \<Rightarrow>
              Inr \<lparr>password = pw, score = sc, strength = strength_label, color_emoji = emoji,
                   crack_time = ct, criteria = crit, warnings = ws, suggestions = ss\<rparr>)))))"

section \<open>The specification's wording\<close>

text \<open>
  Two notions that the specification states in its own words, for comparison with the
  code. The seventh trigger of the advisory is "a run of the same character repeated
  three or more times": three equal characters in a row, whatever the character.
\<close>

definition spec_repeat_run :: "pystr \<Rightarrow> bool" where
  "spec_repeat_run s =
     list_ex (\<lambda>i. s ! i = s ! (i + 1) \<and> s ! (i + 1) = s ! (i + 2)) [0..<length s - 2]"

text \<open>
  The crack time of the specification: the alphabet size is the sum of the sizes of the
  character classes present, the expected time is \<open>alphabet_size ^ length / (2 * 10 ^ 9)\<close>
  seconds as an exact number, and the answer is read off the table of buckets, with the
  floor of the quotient by the unit.
\<close>

definition alphabet_size :: "pystr \<Rightarrow> int" where
  "alphabet_size s =
     (if re_search_class is_lower s then 26 else 0)
     + (if re_search_class is_upper s then 26 else 0)
     + (if re_search_class is_digit s then 10 else 0)
     + (if re_search_class is_special s then 32 else 0)"

definition spec_seconds :: "pystr \<Rightarrow> rat" where
  "spec_seconds s = of_int (alphabet_size s ^ length s) / (2 * 10 ^ 9)"

definition spec_crack_time :: "pystr \<Rightarrow> pystr" where
  "spec_crack_time s =
     (if s = [] then py ''N/A''
      else if spec_seconds s < 1 then py ''Instantly''
      else if spec_seconds s < 60 then str_int \<lfloor>spec_seconds s\<rfloor> @ py '' seconds''
      else if spec_seconds s < 3600 then str_int \<lfloor>spec_seconds s / 60\<rfloor> @ py '' minutes''
      else if spec_seconds s < 86400 then str_int \<lfloor>spec_seconds s / 3600\<rfloor> @ py '' hours''
      else if spec_seconds s < 31536000 then
        str_int \<lfloor>spec_seconds s / 86400\<rfloor> @ py '' days''
      else if spec_seconds s < 31536000000 then
        str_int \<lfloor>spec_seconds s / 31536000\<rfloor> @ py '' years''
      else py ''Centuries'')"

section \<open>Properties of the floating-point operations\<close>

lemma flog2_bounds: "0 < q \<Longrightarrow> 2 powi flog2 q \<le> q \<and> q < 2 powi (flog2 q + 1)"
proof (induction q rule: flog2.induct)
  case (1 q)
  show ?case
  proof (cases "2 \<le> q")
    case True
    then have e: "flog2 q = flog2 (q / 2) + 1" using 1(3) by (subst flog2.simps) simp
    have ih: "2 powi flog2 (q / 2) \<le> q / 2 \<and> q / 2 < 2 powi (flog2 (q / 2) + 1)"
      using 1(1) True 1(3) by simp
    show ?thesis unfolding e using ih by (simp add: power_int_add)
  next
    case False
    show ?thesis
    proof (cases "q < 1")
      case True
      then have e: "flog2 q = flog2 (q * 2) - 1" using 1(3) False by (subst flog2.simps) simp
      have ih: "2 powi flog2 (q * 2) \<le> q * 2 \<and> q * 2 < 2 powi (flog2 (q * 2) + 1)"
        using 1(2) True False 1(3) by simp
      show ?thesis unfolding e using ih by (simp add: power_int_add power_int_diff)
    next
      case F2: False
      then have e: "flog2 q = 0" using 1(3) False by (subst flog2.simps) simp
      show ?thesis unfolding e using False F2 by simp
    qed
  qed
qed

lemma pow2_less_cancel: "(2::rat) powi a < 2 powi b \<Longrightarrow> a < b"
proof (rule ccontr)
  assume l: "(2::rat) powi a < 2 powi b" and "\<not> a < b"
  then have "b \<le> a" by simp
  then have "(2::rat) powi b \<le> 2 powi a" by (intro power_int_increasing) simp_all
  with l show False by simp
qed

lemma pow2_pos: "(0::rat) < 2 powi e"
  by simp

lemma flog2_eqI:
  assumes "2 powi e \<le> q" "q < 2 powi (e + 1)"
  shows "flog2 q = e"
proof -
  have q: "0 < q" using assms(1) pow2_pos[of e] by linarith
  note b = flog2_bounds[OF q]
  have "(2::rat) powi e < 2 powi (flog2 q + 1)" using assms(1) b by linarith
  then have 1: "e < flog2 q + 1" by (rule pow2_less_cancel)
  have "(2::rat) powi flog2 q < 2 powi (e + 1)" using assms(2) b by linarith
  then have 2: "flog2 q < e + 1" by (rule pow2_less_cancel)
  show ?thesis using 1 2 by simp
qed

lemma round_half_even_ge: "of_int m \<le> x \<Longrightarrow> m \<le> round_half_even x"
proof -
  assume "of_int m \<le> x"
  then have "m \<le> \<lfloor>x\<rfloor>" by (simp add: le_floor_iff)
  then show ?thesis by (simp add: round_half_even_def Let_def)
qed

lemma round_half_even_le: "x \<le> of_int m \<Longrightarrow> round_half_even x \<le> m"
proof -
  assume a: "x \<le> of_int m"
  show ?thesis
  proof (cases "x = of_int m")
    case True
    then show ?thesis by (simp add: round_half_even_def Let_def)
  next
    case False
    then have "x < of_int m" using a by simp
    then have "\<lfloor>x\<rfloor> < m" by (simp add: floor_less_iff)
    then show ?thesis by (simp add: round_half_even_def Let_def)
  qed
qed

lemma round_half_even_eqI:
  assumes "\<bar>x - of_int n\<bar> < 1 / 2"
  shows "round_half_even x = n"
proof (cases "of_int n \<le> x")
  case True
  then have f: "\<lfloor>x\<rfloor> = n" using assms by (simp add: floor_eq_iff abs_less_iff)
  show ?thesis using assms True by (simp add: round_half_even_def Let_def f abs_less_iff)
next
  case False
  then have f: "\<lfloor>x\<rfloor> = n - 1" using assms by (simp add: floor_eq_iff abs_less_iff)
  show ?thesis using assms False by (simp add: round_half_even_def Let_def f abs_less_iff)
qed

lemma ulp_eq:
  assumes "2 powi e \<le> \<bar>q\<bar>" "\<bar>q\<bar> < 2 powi (e + 1)" "- 1022 \<le> e"
  shows "ulp q = 2 powi (e - 52)"
proof -
  have "flog2 \<bar>q\<bar> = e" using assms(1,2) by (rule flog2_eqI)
  then show ?thesis using assms(3) by (simp add: ulp_def max_def)
qed

lemma round_double_eq:
  assumes "2 powi e \<le> \<bar>q\<bar>" "\<bar>q\<bar> < 2 powi (e + 1)" "- 1022 \<le> e"
  shows "round_double q = of_int (round_half_even (q / 2 powi (e - 52))) * 2 powi (e - 52)"
proof -
  have "q \<noteq> 0"
  proof
    assume "q = 0"
    then have "(2::rat) powi e \<le> 0" using assms(1) by simp
    then show False using pow2_pos[of e] by linarith
  qed
  then show ?thesis using ulp_eq[OF assms] by (simp add: round_double_def)
qed

lemma round_double_near:
  assumes "2 powi e \<le> \<bar>q\<bar>" "\<bar>q\<bar> < 2 powi (e + 1)" "- 1022 \<le> e"
    and "\<bar>q / 2 powi (e - 52) - of_int n\<bar> < 1 / 2"
  shows "round_double q = of_int n * 2 powi (e - 52)"
  using round_double_eq[OF assms(1-3)] round_half_even_eqI[OF assms(4)] by simp

lemma round_double_lower:
  assumes "2 powi e \<le> q" "- 1022 \<le> e"
  shows "2 powi e \<le> round_double q"
proof -
  have q: "0 < q" using assms(1) pow2_pos[of e] by linarith
  define f where "f = flog2 q"
  have b: "2 powi f \<le> q" "q < 2 powi (f + 1)" using flog2_bounds[OF q] by (simp_all add: f_def)
  have "(2::rat) powi e < 2 powi (f + 1)" using assms(1) b by linarith
  then have ef: "e \<le> f" using pow2_less_cancel[of e "f + 1"] by simp
  have aq: "\<bar>q\<bar> = q" using q by simp
  have r: "round_double q = of_int (round_half_even (q / 2 powi (f - 52))) * 2 powi (f - 52)"
    using round_double_eq[of f q] b ef assms(2) aq by simp
  have "q / 2 powi (f - 52) \<ge> 2 powi f / 2 powi (f - 52)"
    using b(1) by (simp add: divide_right_mono)
  moreover have "(2::rat) powi f / 2 powi (f - 52) = 2 ^ 52"
    by (simp add: power_int_diff)
  ultimately have "of_int (2 ^ 52) \<le> q / 2 powi (f - 52)" by simp
  then have "2 ^ 52 \<le> round_half_even (q / 2 powi (f - 52))" by (rule round_half_even_ge)
  then have "(2::rat) ^ 52 \<le> of_int (round_half_even (q / 2 powi (f - 52)))"
    by (metis of_int_le_iff of_int_numeral of_int_power)
  then have "2 ^ 52 * 2 powi (f - 52) \<le> round_double q"
    unfolding r by (simp add: mult_right_mono)
  moreover have "(2::rat) ^ 52 * 2 powi (f - 52) = 2 powi f" by (simp add: power_int_diff)
  moreover have "(2::rat) powi e \<le> 2 powi f" using ef by (intro power_int_increasing) simp_all
  ultimately show ?thesis by linarith
qed

lemma round_double_upper:
  assumes "0 < q" "q \<le> 2 powi e" "- 1022 \<le> e"
  shows "round_double q \<le> 2 powi e"
proof -
  define u where "u = ulp q"
  define g where "g = max (flog2 \<bar>q\<bar>) (- 1022)"
  have u: "u = 2 powi (g - 52)" by (simp add: u_def g_def ulp_def)
  have aq: "\<bar>q\<bar> = q" using assms(1) by simp
  have b: "2 powi flog2 q \<le> q" using flog2_bounds[OF assms(1)] by simp
  have "(2::rat) powi flog2 q < 2 powi (e + 1)"
  proof -
    have "(2::rat) powi e < 2 powi (e + 1)" by (intro power_int_strict_increasing) simp_all
    then show ?thesis using b assms(2) by linarith
  qed
  then have "flog2 q \<le> e" using pow2_less_cancel[of "flog2 q" "e + 1"] by simp
  then have ge: "g \<le> e" using assms(3) by (simp add: g_def aq)
  have up: "0 < u" by (simp add: u)
  have "(2::rat) powi e / u = 2 powi (e - (g - 52))" by (simp add: u power_int_diff)
  also have "\<dots> = 2 ^ nat (e - g + 52)" using ge by (simp add: power_int_def)
  finally have eu: "(2::rat) powi e / u = of_int (2 ^ nat (e - g + 52))" by simp
  have "q / u \<le> 2 powi e / u" using assms(2) up by (simp add: divide_right_mono)
  then have "q / u \<le> of_int (2 ^ nat (e - g + 52))" using eu by simp
  then have "round_half_even (q / u) \<le> 2 ^ nat (e - g + 52)" by (rule round_half_even_le)
  then have "(of_int (round_half_even (q / u)) :: rat) \<le> of_int (2 ^ nat (e - g + 52))"
    by (simp only: of_int_le_iff)
  then have "of_int (round_half_even (q / u)) * u \<le> (2 powi e / u) * u"
    using up eu by (simp add: mult_right_mono)
  then have "of_int (round_half_even (q / u)) * u \<le> 2 powi e" using up by simp
  then show ?thesis using assms(1) by (simp add: round_double_def u_def)
qed


lemma to_float_pos:
  assumes "2 powi e \<le> q" "q < 2 powi (e + 1)" "- 1022 \<le> e"
    and "(2 * of_int n - 1) * 2 powi (e - 53) < q" "q < (2 * of_int n + 1) * 2 powi (e - 53)"
    and "0 \<le> n" "of_int n * 2 powi (e - 52) < (2::rat) ^ 1024"
  shows "to_float q = Finite (of_int n * 2 powi (e - 52))"
proof -
  have q: "0 < q" using assms(1) pow2_pos[of e] by linarith
  then have aq: "\<bar>q\<bar> = q" by simp
  have h: "(2::rat) powi (e - 53) = 2 powi (e - 52) / 2" by (simp add: power_int_diff)
  have p: "(0::rat) < 2 powi (e - 52)" by simp
  have 1: "of_int n - 1 / 2 < q / 2 powi (e - 52)"
    using assms(4) p unfolding h by (simp add: field_simps)
  have 2: "q / 2 powi (e - 52) < of_int n + 1 / 2"
    using assms(5) p unfolding h by (simp add: field_simps)
  have "\<bar>q / 2 powi (e - 52) - of_int n\<bar> < 1 / 2" using 1 2 by linarith
  then have r: "round_double q = of_int n * 2 powi (e - 52)"
    using round_double_near[of e q n] assms(1-3) aq by simp
  have "(0::rat) \<le> of_int n * 2 powi (e - 52)" using assms(6) by simp
  then show ?thesis using assms(7) by (simp add: to_float_def Let_def r)
qed

lemma to_float_zero: "to_float 0 = Finite 0"
  by (simp add: to_float_def round_double_def)

lemma int_true_divide_pos:
  assumes "b \<noteq> 0" "to_float (of_int a / of_int b) = Finite r"
  shows "int_true_divide a b = Inr r"
  using assms by (simp add: int_true_divide_def)

lemma int_of_float_mul:
  assumes "to_float (x * 100) = Finite r" "of_int v \<le> r" "r < of_int v + 1" "0 \<le> r"
  shows "int_of_float (float_mul x 100) = Inr v"
  using assms by (simp add: float_mul_def floor_eq_iff)

lemma ratio_0: "int_true_divide 0 9 = Inr 0"
  by (rule int_true_divide_pos) (simp_all add: to_float_zero)

lemma scaled_0: "int_of_float (float_mul 0 100) = Inr 0"
  by (rule int_of_float_mul[where r = 0]) (simp_all add: to_float_zero)

lemma ratio_1: "int_true_divide 1 9 = Inr (2001599834386887 / 18014398509481984)"
proof (rule int_true_divide_pos)
  show "to_float (of_int 1 / of_int 9) = Finite (2001599834386887 / 18014398509481984)"
    using to_float_pos[where q = "1 / 9" and e = "-4" and n = 8006399337547548] by simp
qed simp

lemma scaled_1: "int_of_float (float_mul (2001599834386887 / 18014398509481984) 100) = Inr 11"
proof (rule int_of_float_mul)
  show "to_float (2001599834386887 / 18014398509481984 * 100) = Finite (3127499741229511 / 281474976710656)"
    using to_float_pos[where q = "2001599834386887 / 18014398509481984 * 100" and e = "3" and n = 6254999482459022] by simp
qed simp_all

lemma ratio_2: "int_true_divide 2 9 = Inr (2001599834386887 / 9007199254740992)"
proof (rule int_true_divide_pos)
  show "to_float (of_int 2 / of_int 9) = Finite (2001599834386887 / 9007199254740992)"
    using to_float_pos[where q = "2 / 9" and e = "-3" and n = 8006399337547548] by simp
qed simp

lemma scaled_2: "int_of_float (float_mul (2001599834386887 / 9007199254740992) 100) = Inr 22"
proof (rule int_of_float_mul)
  show "to_float (2001599834386887 / 9007199254740992 * 100) = Finite (3127499741229511 / 140737488355328)"
    using to_float_pos[where q = "2001599834386887 / 9007199254740992 * 100" and e = "4" and n = 6254999482459022] by simp
qed simp_all

lemma ratio_3: "int_true_divide 3 9 = Inr (6004799503160661 / 18014398509481984)"
proof (rule int_true_divide_pos)
  show "to_float (of_int 3 / of_int 9) = Finite (6004799503160661 / 18014398509481984)"
    using to_float_pos[where q = "3 / 9" and e = "-2" and n = 6004799503160661] by simp
qed simp

lemma scaled_3: "int_of_float (float_mul (6004799503160661 / 18014398509481984) 100) = Inr 33"
proof (rule int_of_float_mul)
  show "to_float (6004799503160661 / 18014398509481984 * 100) = Finite (2345624805922133 / 70368744177664)"
    using to_float_pos[where q = "6004799503160661 / 18014398509481984 * 100" and e = "5" and n = 4691249611844266] by simp
qed simp_all

lemma ratio_4: "int_true_divide 4 9 = Inr (2001599834386887 / 4503599627370496)"
proof (rule int_true_divide_pos)
  show "to_float (of_int 4 / of_int 9) = Finite (2001599834386887 / 4503599627370496)"
    using to_float_pos[where q = "4 / 9" and e = "-2" and n = 8006399337547548] by simp
qed simp

lemma scaled_4: "int_of_float (float_mul (2001599834386887 / 4503599627370496) 100) = Inr 44"
proof (rule int_of_float_mul)
  show "to_float (2001599834386887 / 4503599627370496 * 100) = Finite (3127499741229511 / 70368744177664)"
    using to_float_pos[where q = "2001599834386887 / 4503599627370496 * 100" and e = "5" and n = 6254999482459022] by simp
qed simp_all

lemma ratio_5: "int_true_divide 5 9 = Inr (2501999792983609 / 4503599627370496)"
proof (rule int_true_divide_pos)
  show "to_float (of_int 5 / of_int 9) = Finite (2501999792983609 / 4503599627370496)"
    using to_float_pos[where q = "5 / 9" and e = "-1" and n = 5003999585967218] by simp
qed simp

lemma scaled_5: "int_of_float (float_mul (2501999792983609 / 4503599627370496) 100) = Inr 55"
proof (rule int_of_float_mul)
  show "to_float (2501999792983609 / 4503599627370496 * 100) = Finite (3909374676536889 / 70368744177664)"
    using to_float_pos[where q = "2501999792983609 / 4503599627370496 * 100" and e = "5" and n = 7818749353073778] by simp
qed simp_all

lemma ratio_6: "int_true_divide 6 9 = Inr (6004799503160661 / 9007199254740992)"
proof (rule int_true_divide_pos)
  show "to_float (of_int 6 / of_int 9) = Finite (6004799503160661 / 9007199254740992)"
    using to_float_pos[where q = "6 / 9" and e = "-1" and n = 6004799503160661] by simp
qed simp

lemma scaled_6: "int_of_float (float_mul (6004799503160661 / 9007199254740992) 100) = Inr 66"
proof (rule int_of_float_mul)
  show "to_float (6004799503160661 / 9007199254740992 * 100) = Finite (2345624805922133 / 35184372088832)"
    using to_float_pos[where q = "6004799503160661 / 9007199254740992 * 100" and e = "6" and n = 4691249611844266] by simp
qed simp_all

lemma ratio_7: "int_true_divide 7 9 = Inr (7005599420354105 / 9007199254740992)"
proof (rule int_true_divide_pos)
  show "to_float (of_int 7 / of_int 9) = Finite (7005599420354105 / 9007199254740992)"
    using to_float_pos[where q = "7 / 9" and e = "-1" and n = 7005599420354105] by simp
qed simp

lemma scaled_7: "int_of_float (float_mul (7005599420354105 / 9007199254740992) 100) = Inr 77"
proof (rule int_of_float_mul)
  show "to_float (7005599420354105 / 9007199254740992 * 100) = Finite (5473124547151645 / 70368744177664)"
    using to_float_pos[where q = "7005599420354105 / 9007199254740992 * 100" and e = "6" and n = 5473124547151645] by simp
qed simp_all

lemma ratio_8: "int_true_divide 8 9 = Inr (2001599834386887 / 2251799813685248)"
proof (rule int_true_divide_pos)
  show "to_float (of_int 8 / of_int 9) = Finite (2001599834386887 / 2251799813685248)"
    using to_float_pos[where q = "8 / 9" and e = "-1" and n = 8006399337547548] by simp
qed simp

lemma scaled_8: "int_of_float (float_mul (2001599834386887 / 2251799813685248) 100) = Inr 88"
proof (rule int_of_float_mul)
  show "to_float (2001599834386887 / 2251799813685248 * 100) = Finite (3127499741229511 / 35184372088832)"
    using to_float_pos[where q = "2001599834386887 / 2251799813685248 * 100" and e = "6" and n = 6254999482459022] by simp
qed simp_all

lemma ratio_9: "int_true_divide 9 9 = Inr (1)"
proof (rule int_true_divide_pos)
  show "to_float (of_int 9 / of_int 9) = Finite (1)"
    using to_float_pos[where q = "9 / 9" and e = "0" and n = 4503599627370496] by simp
qed simp

lemma scaled_9: "int_of_float (float_mul (1) 100) = Inr 100"
proof (rule int_of_float_mul)
  show "to_float (1 * 100) = Finite (100)"
    using to_float_pos[where q = "1 * 100" and e = "6" and n = 7036874417766400] by simp
qed simp_all

lemma calculate_score_nine:
  assumes "length c = 9"
  shows "calculate_score c = Inr (int (100 * length (filter met (map snd c)) div 9))"
proof -
  define m where "m = length (filter met (map snd c))"
  have "m \<le> length (map snd c)" unfolding m_def by (rule length_filter_le)
  then have "m \<le> 9" using assms by simp
  then consider "m = 0" | "m = 1" | "m = 2" | "m = 3" | "m = 4" | "m = 5" | "m = 6"
    | "m = 7" | "m = 8" | "m = 9" by atomize_elim arith
  then have "(case int_true_divide (int m) 9 of
                Inl e \<Rightarrow> Inl e
              | Inr ratio \<Rightarrow>
                  (case int_of_float (float_mul ratio 100) of
                     Inl e \<Rightarrow> Inl e
                   | Inr n \<Rightarrow> Inr (min 100 n))) = Inr (int (100 * m div 9))"
  proof cases
    case 1
    then show ?thesis by (simp add: ratio_0 scaled_0)
  next
    case 2
    then show ?thesis by (simp add: ratio_1 scaled_1)
  next
    case 3
    then show ?thesis by (simp add: ratio_2 scaled_2)
  next
    case 4
    then show ?thesis by (simp add: ratio_3 scaled_3)
  next
    case 5
    then show ?thesis by (simp add: ratio_4 scaled_4)
  next
    case 6
    then show ?thesis by (simp add: ratio_5 scaled_5)
  next
    case 7
    then show ?thesis by (simp add: ratio_6 scaled_6)
  next
    case 8
    then show ?thesis by (simp add: ratio_7 scaled_7)
  next
    case 9
    then show ?thesis by (simp add: ratio_8 scaled_8)
  next
    case 10
    then show ?thesis by (simp add: ratio_9 scaled_9)
  qed
  then show ?thesis using assms by (simp add: calculate_score_def Let_def m_def)
qed

section \<open>Properties of the analyzer\<close>

lemma length_check_criteria: "length (check_criteria ucd pw) = 9"
  by (simp add: check_criteria_def)

lemma getitem_met_length_8:
  "getitem_met (check_criteria ucd pw) (py ''length_8'') = Inr (8 \<le> length pw)"
  by (simp add: getitem_met_def getitem_def check_criteria_def)

lemma getitem_met_length_12:
  "getitem_met (check_criteria ucd pw) (py ''length_12'') = Inr (12 \<le> length pw)"
  by (simp add: getitem_met_def getitem_def check_criteria_def)

lemma getitem_met_lowercase:
  "getitem_met (check_criteria ucd pw) (py ''lowercase'') = Inr (re_search_class is_lower pw)"
  by (simp add: getitem_met_def getitem_def check_criteria_def)

lemma getitem_met_uppercase:
  "getitem_met (check_criteria ucd pw) (py ''uppercase'') = Inr (re_search_class is_upper pw)"
  by (simp add: getitem_met_def getitem_def check_criteria_def)

lemma getitem_met_numbers:
  "getitem_met (check_criteria ucd pw) (py ''numbers'') = Inr (re_search_class is_digit pw)"
  by (simp add: getitem_met_def getitem_def check_criteria_def)

lemma getitem_met_special_chars:
  "getitem_met (check_criteria ucd pw) (py ''special_chars'') = Inr (re_search_class is_special pw)"
  by (simp add: getitem_met_def getitem_def check_criteria_def)

text \<open>
  Claim C3. For the empty password the criteria \<^verbatim>\<open>length_8\<close>, \<^verbatim>\<open>length_12\<close>, \<^verbatim>\<open>lowercase\<close>,
  \<^verbatim>\<open>uppercase\<close>, \<^verbatim>\<open>numbers\<close> and \<^verbatim>\<open>special_chars\<close> are unmet, and \<^verbatim>\<open>not_common\<close>,
  \<^verbatim>\<open>no_repeats\<close> and \<^verbatim>\<open>no_sequences\<close> are met.
\<close>

theorem check_criteria_empty:
  "map (\<lambda>(k, c). (k, met c)) (check_criteria ucd []) =
     [(py ''length_8'', False), (py ''length_12'', False), (py ''lowercase'', False),
      (py ''uppercase'', False), (py ''numbers'', False), (py ''special_chars'', False),
      (py ''not_common'', True), (py ''no_repeats'', True), (py ''no_sequences'', True)]"
  by (simp add: check_criteria_def re_search_class_def str_lower_def common_passwords_def
      sequence_patterns_def)

text \<open>
  Claim C9. In the criteria of any password, \<^verbatim>\<open>length_12\<close> met implies \<^verbatim>\<open>length_8\<close> met.
\<close>

theorem length_12_implies_length_8:
  "getitem_met (check_criteria ucd pw) (py ''length_12'') = Inr True \<Longrightarrow>
   getitem_met (check_criteria ucd pw) (py ''length_8'') = Inr True"
  unfolding getitem_met_length_8 getitem_met_length_12 by simp

text \<open>The hypothesis of C9 holds for a password of twelve characters.\<close>

theorem length_12_implies_length_8_witness:
  "getitem_met (check_criteria (\<lambda>s i. []) (py ''correcthorse'')) (py ''length_12'') = Inr True \<and>
   getitem_met (check_criteria (\<lambda>s i. []) (py ''correcthorse'')) (py ''length_8'') = Inr True"
proof -
  have h: "getitem_met (check_criteria (\<lambda>s i. []) (py ''correcthorse'')) (py ''length_12'') = Inr True"
    unfolding getitem_met_length_12 by simp
  from h length_12_implies_length_8[OF h] show ?thesis by (rule conjI)
qed

lemma advisory_of_check_criteria:
  "get_warnings_and_suggestions ucd pw (check_criteria ucd pw) =
     Inr ((if length pw < 8 then [py ''Password is too short''] else [])
          @ (if str_lower ucd pw \<in> set common_passwords
             then [py ''This is a commonly used password''] else [])
          @ (if re_search_repeat pw then [py ''Contains repeated characters''] else [])
          @ (if re_search_alternatives sequence_patterns pw
             then [py ''Contains keyboard patterns''] else []),
          (if length pw < 8 then [py ''Use at least 8 characters''] else [])
          @ (if \<not> re_search_class is_lower pw then [py ''Add lowercase letters''] else [])
          @ (if \<not> re_search_class is_upper pw then [py ''Add uppercase letters''] else [])
          @ (if \<not> re_search_class is_digit pw then [py ''Add numbers''] else [])
          @ (if \<not> re_search_class is_special pw then [py ''Add special characters''] else [])
          @ (if str_lower ucd pw \<in> set common_passwords
             then [py ''Choose a unique password''] else [])
          @ (if re_search_repeat pw then [py ''Avoid character repetition''] else [])
          @ (if re_search_alternatives sequence_patterns pw
             then [py ''Avoid sequential patterns''] else []))"
  unfolding get_warnings_and_suggestions_def getitem_met_lowercase getitem_met_uppercase
    getitem_met_numbers getitem_met_special_chars
  by (simp add: Let_def)

text \<open>
  Claim C10. For every password and its own criteria the call succeeds and the list of
  warnings is no longer than the list of suggestions.
\<close>

theorem warnings_le_suggestions:
  "\<exists>ws ss. get_warnings_and_suggestions ucd pw (check_criteria ucd pw) = Inr (ws, ss)
     \<and> length ws \<le> length ss"
  unfolding advisory_of_check_criteria by simp

text \<open>
  Claim C6. The strength label is a function of the score by thresholds: at least 80 is
  "Very Strong", 60 to 79 "Strong", 40 to 59 "Moderate", 20 to 39 "Weak", below 20
  "Very Weak"; in particular 80 gives "Very Strong", 79 "Strong", 20 "Weak" and 19
  "Very Weak".
\<close>

theorem get_strength_level_tiers:
  "(80 \<le> s \<longrightarrow> fst (get_strength_level s) = py ''Very Strong'') \<and>
   (60 \<le> s \<and> s \<le> 79 \<longrightarrow> fst (get_strength_level s) = py ''Strong'') \<and>
   (40 \<le> s \<and> s \<le> 59 \<longrightarrow> fst (get_strength_level s) = py ''Moderate'') \<and>
   (20 \<le> s \<and> s \<le> 39 \<longrightarrow> fst (get_strength_level s) = py ''Weak'') \<and>
   (s < 20 \<longrightarrow> fst (get_strength_level s) = py ''Very Weak'') \<and>
   fst (get_strength_level 80) = py ''Very Strong'' \<and>
   fst (get_strength_level 79) = py ''Strong'' \<and>
   fst (get_strength_level 20) = py ''Weak'' \<and>
   fst (get_strength_level 19) = py ''Very Weak''"
  by (simp add: get_strength_level_def)

text \<open>One score in each of the five ranges of C6.\<close>

theorem get_strength_level_tiers_witness:
  "(80::int) \<le> 93 \<and> fst (get_strength_level 93) = py ''Very Strong'' \<and>
   (60::int) \<le> 66 \<and> (66::int) \<le> 79 \<and> fst (get_strength_level 66) = py ''Strong'' \<and>
   (40::int) \<le> 44 \<and> (44::int) \<le> 59 \<and> fst (get_strength_level 44) = py ''Moderate'' \<and>
   (20::int) \<le> 33 \<and> (33::int) \<le> 39 \<and> fst (get_strength_level 33) = py ''Weak'' \<and>
   (11::int) < 20 \<and> fst (get_strength_level 11) = py ''Very Weak''"
  using get_strength_level_tiers[of 93] get_strength_level_tiers[of 66]
    get_strength_level_tiers[of 44] get_strength_level_tiers[of 33]
    get_strength_level_tiers[of 11]
  by simp

text \<open>
  Claim C5 says that an empty criteria set makes \<^verbatim>\<open>calculate_score\<close> fail with an
  InvalidState error rather than by dividing by zero. The code has no such error: the
  failure is the division by zero itself.
\<close>

theorem calculate_score_empty_counterexample:
  "calculate_score [] = Inl ZeroDivisionError"
  by (simp add: calculate_score_def int_true_divide_def)

lemma int_of_float_no_zero_division: "int_of_float x \<noteq> Inl ZeroDivisionError"
  by (cases x) simp_all

text \<open>
  Claim C5, amended. \<^verbatim>\<open>calculate_score\<close> raises \<^verbatim>\<open>ZeroDivisionError\<close> on the empty criteria
  set, and on no other.
\<close>

theorem calculate_score_zero_division:
  "(calculate_score c = Inl ZeroDivisionError) = (c = [])"
  by (auto simp add: calculate_score_def int_true_divide_def Let_def
      int_of_float_no_zero_division split: pyfloat.splits sum.splits)

text \<open>
  Claim C2. The criteria of a password have nine entries; with \<open>m\<close> of them met the score
  is \<open>\<lfloor>100 * m / 9\<rfloor>\<close>, which lies between 0 and 100, is 0 exactly when none is met and
  100 exactly when all nine are.
\<close>

theorem calculate_score_check_criteria:
  "\<exists>m s. m = length (filter met (map snd (check_criteria ucd pw)))
     \<and> length (check_criteria ucd pw) = 9
     \<and> calculate_score (check_criteria ucd pw) = Inr s
     \<and> s = int (100 * m div 9)
     \<and> 0 \<le> s \<and> s \<le> 100
     \<and> ((s = 0) = (m = 0))
     \<and> ((s = 100) = (m = 9))"
proof -
  define m where "m = length (filter met (map snd (check_criteria ucd pw)))"
  have "m \<le> length (map snd (check_criteria ucd pw))" unfolding m_def by (rule length_filter_le)
  then have m9: "m \<le> 9" by (simp add: length_check_criteria)
  have s: "calculate_score (check_criteria ucd pw) = Inr (int (100 * m div 9))"
    unfolding m_def by (rule calculate_score_nine) (rule length_check_criteria)
  from m9 consider "m = 0" | "m = 1" | "m = 2" | "m = 3" | "m = 4" | "m = 5" | "m = 6"
    | "m = 7" | "m = 8" | "m = 9" by atomize_elim arith
  then have "100 * m div 9 \<le> 100 \<and> ((100 * m div 9 = 0) = (m = 0))
      \<and> ((100 * m div 9 = 100) = (m = 9))"
    by cases simp_all
  then show ?thesis using s length_check_criteria[of ucd pw]
    unfolding m_def by simp
qed

lemma alphabet_size_ge:
  assumes "pw \<noteq> []"
  shows "10 \<le> alphabet_size pw"
proof -
  obtain c cs where pw: "pw = c # cs" using assms by (cases pw) auto
  have "is_lower c \<or> is_upper c \<or> is_digit c \<or> is_special c"
    by (auto simp add: is_special_def)
  then have "re_search_class is_lower pw \<or> re_search_class is_upper pw
      \<or> re_search_class is_digit pw \<or> re_search_class is_special pw"
    unfolding pw re_search_class_def by auto
  then show ?thesis by (auto simp add: alphabet_size_def)
qed

lemma alphabet_size_le: "alphabet_size pw \<le> 94"
  by (simp add: alphabet_size_def)

lemma estimate_crack_time_unfold:
  "estimate_crack_time pw =
     (if pw = [] then Inr (py ''N/A'')
      else if alphabet_size pw = 0 then Inr (py ''Instantly'')
      else case int_true_divide (alphabet_size pw ^ length pw) 2000000000 of
             Inl e \<Rightarrow> Inl e
           | Inr s \<Rightarrow>
               if s < 1 then Inr (py ''Instantly'')
               else if s < 60 then format_time (Finite s) (py '' seconds'')
               else if s < 3600 then format_time_div s 60 (py '' minutes'')
               else if s < 86400 then format_time_div s 3600 (py '' hours'')
               else if s < 31536000 then format_time_div s 86400 (py '' days'')
               else if s < 31536000000 then format_time_div s 31536000 (py '' years'')
               else Inr (py ''Centuries''))"
  by (cases "re_search_class is_lower pw"; cases "re_search_class is_upper pw";
      cases "re_search_class is_digit pw"; cases "re_search_class is_special pw";
      simp add: estimate_crack_time_def alphabet_size_def Let_def)

lemma estimate_crack_time_error:
  assumes "pw \<noteq> []"
    and "int_true_divide (alphabet_size pw ^ length pw) 2000000000 = Inl e"
  shows "estimate_crack_time pw = Inl e"
proof -
  have "alphabet_size pw \<noteq> 0" using alphabet_size_ge[OF assms(1)] by simp
  then show ?thesis using assms unfolding estimate_crack_time_unfold by simp
qed

lemma estimate_crack_time_value:
  assumes "pw \<noteq> []"
    and "int_true_divide (alphabet_size pw ^ length pw) 2000000000 = Inr s"
  shows "estimate_crack_time pw =
     (if s < 1 then Inr (py ''Instantly'')
      else if s < 60 then format_time (Finite s) (py '' seconds'')
      else if s < 3600 then format_time_div s 60 (py '' minutes'')
      else if s < 86400 then format_time_div s 3600 (py '' hours'')
      else if s < 31536000 then format_time_div s 86400 (py '' days'')
      else if s < 31536000000 then format_time_div s 31536000 (py '' years'')
      else Inr (py ''Centuries''))"
proof -
  have "alphabet_size pw \<noteq> 0" using alphabet_size_ge[OF assms(1)] by simp
  then show ?thesis using assms unfolding estimate_crack_time_unfold by simp
qed

lemma int_true_divide_overflow:
  assumes "0 < b" "2 ^ 1024 * of_int b \<le> (of_int a :: rat)"
  shows "int_true_divide a b = Inl OverflowError"
proof -
  have "(2::rat) ^ 1024 \<le> of_int a / of_int b"
    using assms by (simp add: pos_le_divide_eq)
  then have "(2::rat) powi 1024 \<le> of_int a / of_int b" by simp
  then have "(2::rat) powi 1024 \<le> round_double (of_int a / of_int b)"
    by (rule round_double_lower) simp
  then have "to_float (of_int a / of_int b) = PosInf" by (simp add: to_float_def)
  then show ?thesis using assms(1) by (simp add: int_true_divide_def)
qed

lemma int_true_divide_large:
  assumes "0 < b" "2 powi e * of_int b \<le> (of_int a :: rat)"
    "(of_int a :: rat) \<le> 2 ^ 1023 * of_int b" "- 1022 \<le> e"
  shows "\<exists>r. int_true_divide a b = Inr r \<and> 2 powi e \<le> r"
proof -
  define q :: rat where "q = of_int a / of_int b"
  have l: "2 powi e \<le> q" using assms(1,2) by (simp add: q_def pos_le_divide_eq)
  have "q \<le> 2 ^ 1023" using assms(1,3) by (simp add: q_def pos_divide_le_eq)
  then have u: "q \<le> 2 powi 1023" by simp
  have "(0::rat) < 2 powi e" by simp
  then have q0: "0 < q" using l by linarith
  have rl: "2 powi e \<le> round_double q" using l assms(4) by (rule round_double_lower)
  have "round_double q \<le> 2 powi 1023" using q0 u by (rule round_double_upper) simp
  then have ru: "round_double q < 2 ^ 1024" by simp
  have "(0::rat) < 2 powi e" by simp
  then have "0 < round_double q" using rl by linarith
  then have "to_float q = Finite (round_double q)" using ru by (simp add: to_float_def)
  then show ?thesis using assms(1) rl by (simp add: int_true_divide_def q_def)
qed

lemma estimate_crack_time_overflow:
  assumes "318 \<le> length pw"
  shows "estimate_crack_time pw = Inl OverflowError"
proof -
  have ne: "pw \<noteq> []" using assms by auto
  have "(10::int) ^ 318 \<le> 10 ^ length pw" using assms by (intro power_increasing) simp_all
  also have "\<dots> \<le> alphabet_size pw ^ length pw"
    using alphabet_size_ge[OF ne] by (intro power_mono) simp_all
  finally have "(10::int) ^ 318 \<le> alphabet_size pw ^ length pw" .
  then have "(of_int (10 ^ 318) :: rat) \<le> of_int (alphabet_size pw ^ length pw)"
    by (simp only: of_int_le_iff)
  moreover have "(2::rat) ^ 1024 * of_int 2000000000 \<le> of_int (10 ^ 318)" by simp
  ultimately have "(2::rat) ^ 1024 * of_int 2000000000 \<le> of_int (alphabet_size pw ^ length pw)"
    by (rule order_trans[rotated])
  then have "int_true_divide (alphabet_size pw ^ length pw) 2000000000 = Inl OverflowError"
    by (intro int_true_divide_overflow) simp_all
  then show ?thesis by (rule estimate_crack_time_error[OF ne])
qed

text \<open>
  Claim C1 says that \<^verbatim>\<open>analyze_password\<close> returns a result for every string. The code
  raises \<^verbatim>\<open>OverflowError\<close> for every password of 318 characters or more: the alphabet has
  at least 10 symbols, so the number of combinations divided by \<open>2 * 10 ^ 9\<close> is beyond
  the largest float, and \<^verbatim>\<open>estimate_crack_time\<close> fails at its division.
\<close>

theorem analyze_password_overflow:
  assumes "318 \<le> length pw"
  shows "analyze_password ucd pw = Inl OverflowError"
proof -
  have "calculate_score (check_criteria ucd pw)
      = Inr (int (100 * length (filter met (map snd (check_criteria ucd pw))) div 9))"
    by (rule calculate_score_nine) (rule length_check_criteria)
  then show ?thesis using estimate_crack_time_overflow[OF assms]
    by (simp add: analyze_password_def Let_def split: prod.splits)
qed

text \<open>The failing input of C1: the letter \<^verbatim>\<open>a\<close>, 320 times.\<close>

theorem analyze_password_overflow_witness:
  "318 \<le> length (replicate 320 (97::nat)) \<and>
   analyze_password (\<lambda>s i. []) (replicate 320 97) = Inl OverflowError"
proof -
  have h: "318 \<le> length (replicate 320 (97::nat))" by simp
  from h analyze_password_overflow[OF h] show ?thesis by (rule conjI)
qed

text \<open>
  Claim C4 says that \<^verbatim>\<open>estimate_crack_time\<close> returns, for every non-empty password, the
  string that the table of buckets selects for the exact quotient. For the 161
  characters \<^verbatim>\<open>aB3!\<close> followed by 157 times \<^verbatim>\<open>x\<close> the table selects "Centuries", and the
  code raises \<^verbatim>\<open>OverflowError\<close>.
\<close>

theorem estimate_crack_time_overflow_161:
  "length (py ''aB3!'' @ replicate 157 120) = 161 \<and>
   estimate_crack_time (py ''aB3!'' @ replicate 157 120) = Inl OverflowError \<and>
   spec_crack_time (py ''aB3!'' @ replicate 157 120) = py ''Centuries''"
proof -
  define pw :: pystr where "pw = py ''aB3!'' @ replicate 157 120"
  have ne: "pw \<noteq> []" by (simp add: pw_def)
  have len: "length pw = 161" by (simp add: pw_def)
  have a: "alphabet_size pw = 94"
    by (simp add: pw_def alphabet_size_def re_search_class_def is_lower_def is_upper_def
        is_digit_def is_special_def)
  have "int_true_divide (alphabet_size pw ^ length pw) 2000000000 = Inl OverflowError"
    unfolding a len by (rule int_true_divide_overflow) simp_all
  then have e: "estimate_crack_time pw = Inl OverflowError"
    by (rule estimate_crack_time_error[OF ne])
  have "\<not> spec_seconds pw < 31536000000" by (simp add: spec_seconds_def a len)
  then have s: "spec_crack_time pw = py ''Centuries''"
    using ne by (simp add: spec_crack_time_def)
  show ?thesis using len e s unfolding pw_def by simp
qed

lemma estimate_crack_time_centuries:
  assumes "pw \<noteq> []"
    and "2 ^ 35 * 2000000000 \<le> alphabet_size pw ^ length pw"
    and "alphabet_size pw ^ length pw \<le> 2 ^ 1023 * 2000000000"
  shows "estimate_crack_time pw = Inr (py ''Centuries'')"
proof -
  have "(of_int (2 ^ 35 * 2000000000) :: rat) \<le> of_int (alphabet_size pw ^ length pw)"
    using assms(2) by (simp only: of_int_le_iff)
  then have l: "(2::rat) powi 35 * of_int 2000000000 \<le> of_int (alphabet_size pw ^ length pw)"
    by simp
  have "(of_int (alphabet_size pw ^ length pw) :: rat) \<le> of_int (2 ^ 1023 * 2000000000)"
    using assms(3) by (simp only: of_int_le_iff)
  then have u: "(of_int (alphabet_size pw ^ length pw) :: rat) \<le> 2 ^ 1023 * of_int 2000000000"
    by simp
  obtain r where r: "int_true_divide (alphabet_size pw ^ length pw) 2000000000 = Inr r"
    and rl: "2 powi 35 \<le> r"
    using int_true_divide_large[OF _ l u] by auto
  have "\<not> r < 31536000000" using rl by simp
  then show ?thesis unfolding estimate_crack_time_value[OF assms(1) r] by simp
qed

text \<open>
  Claim C8. The analysis of \<^verbatim>\<open>correct-horse-battery-staple-2024!\<close> succeeds with a score
  of 88, which is at least 80, and the strength label "Very Strong".
\<close>

theorem analyze_password_example:
  "\<exists>r. analyze_password ucd (py ''correct-horse-battery-staple-2024!'') = Inr r
     \<and> score r = 88 \<and> 80 \<le> score r \<and> strength r = py ''Very Strong''"
proof -
  define pw :: pystr where "pw = py ''correct-horse-battery-staple-2024!''"
  have m: "length (filter met (map snd (check_criteria ucd pw))) = 8"
    by (simp add: pw_def check_criteria_def re_search_class_def str_lower_def
        common_passwords_def sequence_patterns_def is_lower_def is_upper_def is_digit_def
        is_special_def ignorecase_eq_def ascii_lower_def)
  have "calculate_score (check_criteria ucd pw)
      = Inr (int (100 * length (filter met (map snd (check_criteria ucd pw))) div 9))"
    by (rule calculate_score_nine) (rule length_check_criteria)
  then have sc: "calculate_score (check_criteria ucd pw) = Inr 88" unfolding m by simp
  have ne: "pw \<noteq> []" by (simp add: pw_def)
  have len: "length pw = 34" by (simp add: pw_def)
  have a: "alphabet_size pw = 68"
    by (simp add: pw_def alphabet_size_def re_search_class_def is_lower_def is_upper_def
        is_digit_def is_special_def)
  have ct: "estimate_crack_time pw = Inr (py ''Centuries'')"
    by (rule estimate_crack_time_centuries[OF ne]) (simp_all add: a len)
  have lv: "get_strength_level 88 = (py ''Very Strong'', [128994])"
    by (simp add: get_strength_level_def)
  obtain ws ss where
    adv: "get_warnings_and_suggestions ucd pw (check_criteria ucd pw) = Inr (ws, ss)"
    using advisory_of_check_criteria[of ucd pw] by blast
  show ?thesis
    unfolding pw_def[symmetric] by (simp add: analyze_password_def Let_def sc lv ct adv)
qed

text \<open>
  Claim C7 lists "a run of three or more consecutive repeats" among the triggers of the
  advisory. The password of three line feeds is such a run, and the code gives neither
  the warning nor the suggestion for it, since the dot of its regular expression does
  not match a line feed.
\<close>

theorem newline_run_not_reported:
  "spec_repeat_run [10, 10, 10] \<and>
   get_warnings_and_suggestions ucd [10, 10, 10] (check_criteria ucd [10, 10, 10]) =
     Inr ([py ''Password is too short''],
          [py ''Use at least 8 characters'', py ''Add lowercase letters'',
           py ''Add uppercase letters'', py ''Add numbers''])"
  unfolding advisory_of_check_criteria
  by (simp add: spec_repeat_run_def re_search_class_def str_lower_def common_passwords_def
      sequence_patterns_def is_lower_def is_upper_def is_digit_def is_special_def
      ignorecase_eq_def ascii_lower_def)

lemma advisory_Password:
  "\<exists>ws ss. get_warnings_and_suggestions ucd (py ''Password'')
       (check_criteria ucd (py ''Password'')) = Inr (ws, ss)
     \<and> py ''This is a commonly used password'' \<in> set ws"
  unfolding advisory_of_check_criteria
  by (simp add: str_lower_def common_passwords_def is_upper_def ascii_lower_def)

section \<open>The repeat pattern and a run of equal characters\<close>

text \<open>
  The regular expression for repeated characters finds a run of three equal characters
  that are not line feeds; on a password without line feeds it is the run of the
  specification.
\<close>

lemma re_search_repeat_iff:
  "re_search_repeat s =
     (\<exists>i. i + 2 < length s \<and> s ! i \<noteq> 10 \<and> s ! (i + 1) = s ! i \<and> s ! (i + 2) = s ! i)"
proof (induction s rule: re_search_repeat.induct)
  case (1 a b c s)
  have "(\<exists>i. i + 2 < length (a # b # c # s) \<and> (a # b # c # s) ! i \<noteq> 10
          \<and> (a # b # c # s) ! (i + 1) = (a # b # c # s) ! i
          \<and> (a # b # c # s) ! (i + 2) = (a # b # c # s) ! i)
      = ((a \<noteq> 10 \<and> b = a \<and> c = a)
          \<or> (\<exists>j. j + 2 < length (b # c # s) \<and> (b # c # s) ! j \<noteq> 10
              \<and> (b # c # s) ! (j + 1) = (b # c # s) ! j
              \<and> (b # c # s) ! (j + 2) = (b # c # s) ! j))"
    (is "(\<exists>i. ?P i) = (?A \<or> (\<exists>j. ?Q j))")
  proof
    assume "\<exists>i. ?P i"
    then obtain i where i: "?P i" ..
    show "?A \<or> (\<exists>j. ?Q j)"
    proof (cases i)
      case 0
      then show ?thesis using i by simp
    next
      case (Suc j)
      then have "?Q j" using i by simp
      then show ?thesis by blast
    qed
  next
    assume "?A \<or> (\<exists>j. ?Q j)"
    then show "\<exists>i. ?P i"
    proof
      assume ?A
      then have "?P 0" by simp
      then show ?thesis ..
    next
      assume "\<exists>j. ?Q j"
      then obtain j where "?Q j" ..
      then have "?P (Suc j)" by simp
      then show ?thesis ..
    qed
  qed
  then show ?case using 1 by simp
qed simp_all

lemma spec_repeat_run_iff:
  "spec_repeat_run s = (\<exists>i. i + 2 < length s \<and> s ! (i + 1) = s ! i \<and> s ! (i + 2) = s ! i)"
proof -
  have r: "\<And>i. (i \<in> set [0..<length s - 2]) = (i + 2 < length s)" by auto
  have e: "\<And>i. (s ! i = s ! (i + 1) \<and> s ! (i + 1) = s ! (i + 2))
      = (s ! (i + 1) = s ! i \<and> s ! (i + 2) = s ! i)" by auto
  show ?thesis unfolding spec_repeat_run_def list_ex_iff Bex_def r e ..
qed

lemma re_search_repeat_imp_spec: "re_search_repeat s \<Longrightarrow> spec_repeat_run s"
  unfolding re_search_repeat_iff spec_repeat_run_iff by blast

lemma re_search_repeat_no_newline:
  assumes "10 \<notin> set s"
  shows "re_search_repeat s = spec_repeat_run s"
proof -
  have "\<And>i. i + 2 < length s \<Longrightarrow> s ! i \<noteq> 10"
  proof -
    fix i assume "i + 2 < length s"
    then have "s ! i \<in> set s" by simp
    then show "s ! i \<noteq> 10" using assms by metis
  qed
  then show ?thesis unfolding re_search_repeat_iff spec_repeat_run_iff by blast
qed

section \<open>The crack time below the overflow\<close>

text \<open>
  Where the division does not overflow, the floating-point computation of
  \<^verbatim>\<open>estimate_crack_time\<close> gives the string of the specification's exact table. The
  lemmas \<open>agree_instantly\<close> to \<open>agree_centuries\<close> reduce the agreement for one alphabet
  size and one length to inequalities between numerals: the exponent \<open>e\<close> and the
  significand \<open>n\<close> of the rounded quotient, and the same for the second rounding after the
  division by the unit.
\<close>

lemma int_true_divide_value:
  fixes a e n :: int
  defines "q \<equiv> (of_int a :: rat) / 2000000000"
  assumes "2 powi e \<le> q" "q < 2 powi (e + 1)" "- 1022 \<le> e"
    and "(2 * of_int n - 1) * 2 powi (e - 53) < q" "q < (2 * of_int n + 1) * 2 powi (e - 53)"
    and "0 \<le> n" "of_int n * 2 powi (e - 52) < (2::rat) ^ 1024"
  shows "int_true_divide a 2000000000 = Inr (of_int n * 2 powi (e - 52))"
proof -
  have "to_float q = Finite (of_int n * 2 powi (e - 52))"
    using assms(2-8) by (rule to_float_pos)
  then show ?thesis by (simp add: int_true_divide_def q_def)
qed

lemma format_time_div_value:
  fixes s :: rat and d e n v :: int
  assumes "2 powi e \<le> s / of_int d" "s / of_int d < 2 powi (e + 1)" "- 1022 \<le> e"
    and "(2 * of_int n - 1) * 2 powi (e - 53) < s / of_int d"
    and "s / of_int d < (2 * of_int n + 1) * 2 powi (e - 53)"
    and "0 \<le> n" "of_int n * 2 powi (e - 52) < (2::rat) ^ 1024"
    and "of_int v \<le> (of_int n :: rat) * 2 powi (e - 52)"
    and "(of_int n :: rat) * 2 powi (e - 52) < of_int v + 1"
    and "d \<noteq> 0"
  shows "format_time_div s d u = Inr (str_int v @ u)"
proof -
  have tf: "to_float (s / of_int d) = Finite (of_int n * 2 powi (e - 52))"
    using assms(1-7) by (rule to_float_pos)
  have nn: "(0::rat) \<le> of_int n * 2 powi (e - 52)" using assms(6) by simp
  have "\<lfloor>(of_int n :: rat) * 2 powi (e - 52)\<rfloor> = v"
    using assms(8,9) by (simp add: floor_eq_iff)
  then show ?thesis using tf nn assms(10)
    by (simp add: format_time_div_def float_div_def format_time_def)
qed

lemma agree_instantly:
  fixes a e n :: int
  defines "q \<equiv> (of_int a :: rat) / 2000000000"
  defines "s \<equiv> (of_int n :: rat) * 2 powi (e - 52)"
  assumes "pw \<noteq> []" "alphabet_size pw ^ length pw = a"
    and "2 powi e \<le> q" "q < 2 powi (e + 1)" "- 1022 \<le> e"
    and "(2 * of_int n - 1) * 2 powi (e - 53) < q" "q < (2 * of_int n + 1) * 2 powi (e - 53)"
    and "0 \<le> n" "s < 2 ^ 1024"
    and "s < 1" "q < 1"
  shows "estimate_crack_time pw = Inr (spec_crack_time pw)"
proof -
  have "int_true_divide a 2000000000 = Inr s"
    unfolding s_def using assms(5-11) unfolding q_def s_def by (rule int_true_divide_value)
  then have d: "int_true_divide (alphabet_size pw ^ length pw) 2000000000 = Inr s"
    using assms(4) by simp
  have "estimate_crack_time pw = Inr (py ''Instantly'')"
    unfolding estimate_crack_time_value[OF assms(3) d] using assms(12) by simp
  moreover have "spec_seconds pw = q" using assms(4) by (simp add: spec_seconds_def q_def)
  then have "spec_crack_time pw = py ''Instantly''"
    using assms(3,13) by (simp add: spec_crack_time_def)
  ultimately show ?thesis by simp
qed

lemma agree_seconds:
  fixes a e n v :: int
  defines "q \<equiv> (of_int a :: rat) / 2000000000"
  defines "s \<equiv> (of_int n :: rat) * 2 powi (e - 52)"
  assumes "pw \<noteq> []" "alphabet_size pw ^ length pw = a"
    and "2 powi e \<le> q" "q < 2 powi (e + 1)" "- 1022 \<le> e"
    and "(2 * of_int n - 1) * 2 powi (e - 53) < q" "q < (2 * of_int n + 1) * 2 powi (e - 53)"
    and "0 \<le> n" "s < 2 ^ 1024"
    and "1 \<le> s" "s < 60" "1 \<le> q" "q < 60"
    and "of_int v \<le> s" "s < of_int v + 1" "of_int v \<le> q" "q < of_int v + 1"
  shows "estimate_crack_time pw = Inr (spec_crack_time pw)"
proof -
  have "int_true_divide a 2000000000 = Inr s"
    unfolding s_def using assms(5-11) unfolding q_def s_def by (rule int_true_divide_value)
  then have d: "int_true_divide (alphabet_size pw ^ length pw) 2000000000 = Inr s"
    using assms(4) by simp
  have fs: "\<lfloor>s\<rfloor> = v" using assms(16,17) by (simp add: floor_eq_iff)
  have fq: "\<lfloor>q\<rfloor> = v" using assms(18,19) by (simp add: floor_eq_iff)
  have "estimate_crack_time pw = Inr (str_int v @ py '' seconds'')"
    unfolding estimate_crack_time_value[OF assms(3) d] using assms(12,13) fs
    by (simp add: format_time_def)
  moreover have "spec_seconds pw = q" using assms(4) by (simp add: spec_seconds_def q_def)
  then have "spec_crack_time pw = str_int v @ py '' seconds''"
    using assms(3,14,15) fq by (simp add: spec_crack_time_def)
  ultimately show ?thesis by simp
qed

lemma agree_divided:
  fixes a e n ey ny v d :: int and lo hi :: rat and u :: pystr
  defines "q \<equiv> (of_int a :: rat) / 2000000000"
  defines "s \<equiv> (of_int n :: rat) * 2 powi (e - 52)"
  defines "y \<equiv> (of_int ny :: rat) * 2 powi (ey - 52)"
  assumes "pw \<noteq> []" "alphabet_size pw ^ length pw = a"
    and "(lo, hi, d, u) \<in> {(60, 3600, 60, py '' minutes''), (3600, 86400, 3600, py '' hours''),
           (86400, 31536000, 86400, py '' days''),
           (31536000, 31536000000, 31536000, py '' years'')}"
    and "2 powi e \<le> q" "q < 2 powi (e + 1)" "- 1022 \<le> e"
    and "(2 * of_int n - 1) * 2 powi (e - 53) < q" "q < (2 * of_int n + 1) * 2 powi (e - 53)"
    and "0 \<le> n" "s < 2 ^ 1024"
    and "2 powi ey \<le> s / of_int d" "s / of_int d < 2 powi (ey + 1)" "- 1022 \<le> ey"
    and "(2 * of_int ny - 1) * 2 powi (ey - 53) < s / of_int d"
    and "s / of_int d < (2 * of_int ny + 1) * 2 powi (ey - 53)"
    and "0 \<le> ny" "y < 2 ^ 1024"
    and "lo \<le> s" "s < hi" "lo \<le> q" "q < hi"
    and "of_int v \<le> y" "y < of_int v + 1" "of_int v \<le> q / of_int d" "q / of_int d < of_int v + 1"
  shows "estimate_crack_time pw = Inr (spec_crack_time pw)"
proof -
  have "int_true_divide a 2000000000 = Inr s"
    unfolding s_def using assms(7-13) unfolding q_def s_def by (rule int_true_divide_value)
  then have dv: "int_true_divide (alphabet_size pw ^ length pw) 2000000000 = Inr s"
    using assms(5) by simp
  have d0: "d \<noteq> 0" using assms(6) by auto
  have ft: "format_time_div s d u = Inr (str_int v @ u)"
    using assms(14-20) assms(25,26) d0 unfolding y_def by (rule format_time_div_value)
  have fq: "\<lfloor>q / of_int d\<rfloor> = v" using assms(27,28) by (simp add: floor_eq_iff)
  have sq: "spec_seconds pw = q" using assms(5) by (simp add: spec_seconds_def q_def)
  have "estimate_crack_time pw = Inr (str_int v @ u)"
    unfolding estimate_crack_time_value[OF assms(4) dv] using assms(6,21,22) ft by auto
  moreover have "spec_crack_time pw = str_int v @ u"
    unfolding spec_crack_time_def sq using assms(4,6,23,24) fq by auto
  ultimately show ?thesis by simp
qed

lemma agree_centuries_value:
  fixes a e n :: int
  defines "q \<equiv> (of_int a :: rat) / 2000000000"
  defines "s \<equiv> (of_int n :: rat) * 2 powi (e - 52)"
  assumes "pw \<noteq> []" "alphabet_size pw ^ length pw = a"
    and "2 powi e \<le> q" "q < 2 powi (e + 1)" "- 1022 \<le> e"
    and "(2 * of_int n - 1) * 2 powi (e - 53) < q" "q < (2 * of_int n + 1) * 2 powi (e - 53)"
    and "0 \<le> n" "s < 2 ^ 1024"
    and "31536000000 \<le> s" "31536000000 \<le> q"
  shows "estimate_crack_time pw = Inr (spec_crack_time pw)"
proof -
  have "int_true_divide a 2000000000 = Inr s"
    unfolding s_def using assms(5-11) unfolding q_def s_def by (rule int_true_divide_value)
  then have d: "int_true_divide (alphabet_size pw ^ length pw) 2000000000 = Inr s"
    using assms(4) by simp
  have "estimate_crack_time pw = Inr (py ''Centuries'')"
    unfolding estimate_crack_time_value[OF assms(3) d] using assms(12) by simp
  moreover have "spec_seconds pw = q" using assms(4) by (simp add: spec_seconds_def q_def)
  then have "spec_crack_time pw = py ''Centuries''"
    using assms(3,13) by (simp add: spec_crack_time_def)
  ultimately show ?thesis by simp
qed

lemma agree_centuries:
  assumes "pw \<noteq> []"
    and "2 ^ 35 * 2000000000 \<le> alphabet_size pw ^ length pw"
    and "alphabet_size pw ^ length pw \<le> 2 ^ 1023 * 2000000000"
  shows "estimate_crack_time pw = Inr (spec_crack_time pw)"
proof -
  have "(of_int (2 ^ 35 * 2000000000) :: rat) \<le> of_int (alphabet_size pw ^ length pw)"
    using assms(2) by (simp only: of_int_le_iff)
  then have "\<not> spec_seconds pw < 31536000000" by (simp add: spec_seconds_def)
  then have "spec_crack_time pw = py ''Centuries''"
    using assms(1) by (simp add: spec_crack_time_def)
  then show ?thesis using estimate_crack_time_centuries[OF assms] by simp
qed

text \<open>
  The alphabet sizes are the eleven sums of class sizes. For each of them, the lengths
  whose quotient is below \<open>2 ^ 35\<close> seconds are checked one by one; every longer password
  of at most 160 characters is "Centuries" on both sides.
\<close>

lemma agree_10_1:
  assumes "pw \<noteq> []" "alphabet_size pw = 10" "length pw = 1"
  shows "estimate_crack_time pw = Inr (spec_crack_time pw)"
  by (rule agree_instantly[where a = "10" and e = "-28" and n = "6044629098073146"])
    (simp_all add: assms)

lemma agree_10_2:
  assumes "pw \<noteq> []" "alphabet_size pw = 10" "length pw = 2"
  shows "estimate_crack_time pw = Inr (spec_crack_time pw)"
  by (rule agree_instantly[where a = "100" and e = "-25" and n = "7555786372591432"])
    (simp_all add: assms)

lemma agree_10_3:
  assumes "pw \<noteq> []" "alphabet_size pw = 10" "length pw = 3"
  shows "estimate_crack_time pw = Inr (spec_crack_time pw)"
  by (rule agree_instantly[where a = "1000" and e = "-21" and n = "4722366482869645"])
    (simp_all add: assms)

lemma agree_10_4:
  assumes "pw \<noteq> []" "alphabet_size pw = 10" "length pw = 4"
  shows "estimate_crack_time pw = Inr (spec_crack_time pw)"
  by (rule agree_instantly[where a = "10000" and e = "-18" and n = "5902958103587057"])
    (simp_all add: assms)

lemma agree_10_5:
  assumes "pw \<noteq> []" "alphabet_size pw = 10" "length pw = 5"
  shows "estimate_crack_time pw = Inr (spec_crack_time pw)"
  by (rule agree_instantly[where a = "100000" and e = "-15" and n = "7378697629483821"])
    (simp_all add: assms)

lemma agree_10_6:
  assumes "pw \<noteq> []" "alphabet_size pw = 10" "length pw = 6"
  shows "estimate_crack_time pw = Inr (spec_crack_time pw)"
  by (rule agree_instantly[where a = "1000000" and e = "-11" and n = "4611686018427388"])
    (simp_all add: assms)

lemma agree_10_7:
  assumes "pw \<noteq> []" "alphabet_size pw = 10" "length pw = 7"
  shows "estimate_crack_time pw = Inr (spec_crack_time pw)"
  by (rule agree_instantly[where a = "10000000" and e = "-8" and n = "5764607523034235"])
    (simp_all add: assms)

lemma agree_10_8:
  assumes "pw \<noteq> []" "alphabet_size pw = 10" "length pw = 8"
  shows "estimate_crack_time pw = Inr (spec_crack_time pw)"
  by (rule agree_instantly[where a = "100000000" and e = "-5" and n = "7205759403792794"])
    (simp_all add: assms)

lemma agree_10_9:
  assumes "pw \<noteq> []" "alphabet_size pw = 10" "length pw = 9"
  shows "estimate_crack_time pw = Inr (spec_crack_time pw)"
  by (rule agree_instantly[where a = "1000000000" and e = "-1" and n = "4503599627370496"])
    (simp_all add: assms)

lemma agree_10_10:
  assumes "pw \<noteq> []" "alphabet_size pw = 10" "length pw = 10"
  shows "estimate_crack_time pw = Inr (spec_crack_time pw)"
  by (rule agree_seconds[where a = "10000000000" and e = "2" and n = "5629499534213120" and v = "5"])
    (simp_all add: assms)

lemma agree_10_11:
  assumes "pw \<noteq> []" "alphabet_size pw = 10" "length pw = 11"
  shows "estimate_crack_time pw = Inr (spec_crack_time pw)"
  by (rule agree_seconds[where a = "100000000000" and e = "5" and n = "7036874417766400" and v = "50"])
    (simp_all add: assms)

lemma agree_10_12:
  assumes "pw \<noteq> []" "alphabet_size pw = 10" "length pw = 12"
  shows "estimate_crack_time pw = Inr (spec_crack_time pw)"
  by (rule agree_divided[where a = "1000000000000" and e = "8" and n = "8796093022208000"
        and ey = "3" and ny = "4691249611844267" and v = "8"
        and lo = "60" and hi = "3600" and d = "60" and u = "py '' minutes''"])
    (simp_all add: assms)

lemma agree_10_13:
  assumes "pw \<noteq> []" "alphabet_size pw = 10" "length pw = 13"
  shows "estimate_crack_time pw = Inr (spec_crack_time pw)"
  by (rule agree_divided[where a = "10000000000000" and e = "12" and n = "5497558138880000"
        and ey = "0" and ny = "6254999482459022" and v = "1"
        and lo = "3600" and hi = "86400" and d = "3600" and u = "py '' hours''"])
    (simp_all add: assms)

lemma agree_10_14:
  assumes "pw \<noteq> []" "alphabet_size pw = 10" "length pw = 14"
  shows "estimate_crack_time pw = Inr (spec_crack_time pw)"
  by (rule agree_divided[where a = "100000000000000" and e = "15" and n = "6871947673600000"
        and ey = "3" and ny = "7818749353073778" and v = "13"
        and lo = "3600" and hi = "86400" and d = "3600" and u = "py '' hours''"])
    (simp_all add: assms)

lemma agree_10_15:
  assumes "pw \<noteq> []" "alphabet_size pw = 10" "length pw = 15"
  shows "estimate_crack_time pw = Inr (spec_crack_time pw)"
  by (rule agree_divided[where a = "1000000000000000" and e = "18" and n = "8589934592000000"
        and ey = "2" and ny = "6515624460894815" and v = "5"
        and lo = "86400" and hi = "31536000" and d = "86400" and u = "py '' days''"])
    (simp_all add: assms)

lemma agree_10_16:
  assumes "pw \<noteq> []" "alphabet_size pw = 10" "length pw = 16"
  shows "estimate_crack_time pw = Inr (spec_crack_time pw)"
  by (rule agree_divided[where a = "10000000000000000" and e = "22" and n = "5368709120000000"
        and ey = "5" and ny = "8144530576118519" and v = "57"
        and lo = "86400" and hi = "31536000" and d = "86400" and u = "py '' days''"])
    (simp_all add: assms)

lemma agree_10_17:
  assumes "pw \<noteq> []" "alphabet_size pw = 10" "length pw = 17"
  shows "estimate_crack_time pw = Inr (spec_crack_time pw)"
  by (rule agree_divided[where a = "100000000000000000" and e = "25" and n = "6710886400000000"
        and ey = "0" and ny = "7140410368103907" and v = "1"
        and lo = "31536000" and hi = "31536000000" and d = "31536000" and u = "py '' years''"])
    (simp_all add: assms)

lemma agree_10_18:
  assumes "pw \<noteq> []" "alphabet_size pw = 10" "length pw = 18"
  shows "estimate_crack_time pw = Inr (spec_crack_time pw)"
  by (rule agree_divided[where a = "1000000000000000000" and e = "28" and n = "8388608000000000"
        and ey = "3" and ny = "8925512960129883" and v = "15"
        and lo = "31536000" and hi = "31536000000" and d = "31536000" and u = "py '' years''"])
    (simp_all add: assms)

lemma agree_10_19:
  assumes "pw \<noteq> []" "alphabet_size pw = 10" "length pw = 19"
  shows "estimate_crack_time pw = Inr (spec_crack_time pw)"
  by (rule agree_divided[where a = "10000000000000000000" and e = "32" and n = "5242880000000000"
        and ey = "7" and ny = "5578445600081177" and v = "158"
        and lo = "31536000" and hi = "31536000000" and d = "31536000" and u = "py '' years''"])
    (simp_all add: assms)

lemma agree_alphabet_10:
  assumes "pw \<noteq> []" "alphabet_size pw = 10" "length pw \<le> 160"
  shows "estimate_crack_time pw = Inr (spec_crack_time pw)"
proof -
  have "1 \<le> length pw" using assms(1) by (cases pw) simp_all
  then
  consider "length pw = 1" | "length pw = 2" | "length pw = 3" | "length pw = 4"
    | "length pw = 5" | "length pw = 6" | "length pw = 7" | "length pw = 8"
    | "length pw = 9" | "length pw = 10" | "length pw = 11" | "length pw = 12"
    | "length pw = 13" | "length pw = 14" | "length pw = 15" | "length pw = 16"
    | "length pw = 17" | "length pw = 18" | "length pw = 19" | "20 \<le> length pw"
    by atomize_elim arith
  then show ?thesis
  proof cases
    case 1
    then show ?thesis by (rule agree_10_1[OF assms(1,2)])
  next
    case 2
    then show ?thesis by (rule agree_10_2[OF assms(1,2)])
  next
    case 3
    then show ?thesis by (rule agree_10_3[OF assms(1,2)])
  next
    case 4
    then show ?thesis by (rule agree_10_4[OF assms(1,2)])
  next
    case 5
    then show ?thesis by (rule agree_10_5[OF assms(1,2)])
  next
    case 6
    then show ?thesis by (rule agree_10_6[OF assms(1,2)])
  next
    case 7
    then show ?thesis by (rule agree_10_7[OF assms(1,2)])
  next
    case 8
    then show ?thesis by (rule agree_10_8[OF assms(1,2)])
  next
    case 9
    then show ?thesis by (rule agree_10_9[OF assms(1,2)])
  next
    case 10
    then show ?thesis by (rule agree_10_10[OF assms(1,2)])
  next
    case 11
    then show ?thesis by (rule agree_10_11[OF assms(1,2)])
  next
    case 12
    then show ?thesis by (rule agree_10_12[OF assms(1,2)])
  next
    case 13
    then show ?thesis by (rule agree_10_13[OF assms(1,2)])
  next
    case 14
    then show ?thesis by (rule agree_10_14[OF assms(1,2)])
  next
    case 15
    then show ?thesis by (rule agree_10_15[OF assms(1,2)])
  next
    case 16
    then show ?thesis by (rule agree_10_16[OF assms(1,2)])
  next
    case 17
    then show ?thesis by (rule agree_10_17[OF assms(1,2)])
  next
    case 18
    then show ?thesis by (rule agree_10_18[OF assms(1,2)])
  next
    case 19
    then show ?thesis by (rule agree_10_19[OF assms(1,2)])
  next
    case 20
    have "(10::int) ^ 20 \<le> 10 ^ length pw" using 20 by (intro power_increasing) simp_all
    then have l: "2 ^ 35 * 2000000000 \<le> alphabet_size pw ^ length pw"
      unfolding assms(2) by simp
    have "(10::int) ^ length pw \<le> 10 ^ 160" using assms(3) by (intro power_increasing) simp_all
    then have u: "alphabet_size pw ^ length pw \<le> 2 ^ 1023 * 2000000000"
      unfolding assms(2) by simp
    show ?thesis using assms(1) l u by (rule agree_centuries)
  qed
qed

lemma agree_26_1:
  assumes "pw \<noteq> []" "alphabet_size pw = 26" "length pw = 1"
  shows "estimate_crack_time pw = Inr (spec_crack_time pw)"
  by (rule agree_instantly[where a = "26" and e = "-27" and n = "7858017827495090"])
    (simp_all add: assms)

lemma agree_26_2:
  assumes "pw \<noteq> []" "alphabet_size pw = 26" "length pw = 2"
  shows "estimate_crack_time pw = Inr (spec_crack_time pw)"
  by (rule agree_instantly[where a = "676" and e = "-22" and n = "6384639484839760"])
    (simp_all add: assms)

lemma agree_26_3:
  assumes "pw \<noteq> []" "alphabet_size pw = 26" "length pw = 3"
  shows "estimate_crack_time pw = Inr (spec_crack_time pw)"
  by (rule agree_instantly[where a = "17576" and e = "-17" and n = "5187519581432305"])
    (simp_all add: assms)

lemma agree_26_4:
  assumes "pw \<noteq> []" "alphabet_size pw = 26" "length pw = 4"
  shows "estimate_crack_time pw = Inr (spec_crack_time pw)"
  by (rule agree_instantly[where a = "456976" and e = "-13" and n = "8429719319827496"])
    (simp_all add: assms)

lemma agree_26_5:
  assumes "pw \<noteq> []" "alphabet_size pw = 26" "length pw = 5"
  shows "estimate_crack_time pw = Inr (spec_crack_time pw)"
  by (rule agree_instantly[where a = "11881376" and e = "-8" and n = "6849146947359841"])
    (simp_all add: assms)

lemma agree_26_6:
  assumes "pw \<noteq> []" "alphabet_size pw = 26" "length pw = 6"
  shows "estimate_crack_time pw = Inr (spec_crack_time pw)"
  by (rule agree_instantly[where a = "308915776" and e = "-3" and n = "5564931894729870"])
    (simp_all add: assms)

lemma agree_26_7:
  assumes "pw \<noteq> []" "alphabet_size pw = 26" "length pw = 7"
  shows "estimate_crack_time pw = Inr (spec_crack_time pw)"
  by (rule agree_seconds[where a = "8031810176" and e = "2" and n = "4521507164468020" and v = "4"])
    (simp_all add: assms)

lemma agree_26_8:
  assumes "pw \<noteq> []" "alphabet_size pw = 26" "length pw = 8"
  shows "estimate_crack_time pw = Inr (spec_crack_time pw)"
  by (rule agree_divided[where a = "208827064576" and e = "6" and n = "7347449142260532"
        and ey = "0" and ny = "7837279085077901" and v = "1"
        and lo = "60" and hi = "3600" and d = "60" and u = "py '' minutes''"])
    (simp_all add: assms)

lemma agree_26_9:
  assumes "pw \<noteq> []" "alphabet_size pw = 26" "length pw = 9"
  shows "estimate_crack_time pw = Inr (spec_crack_time pw)"
  by (rule agree_divided[where a = "5429503678976" and e = "11" and n = "5969802428086682"
        and ey = "5" and ny = "6367789256625794" and v = "45"
        and lo = "60" and hi = "3600" and d = "60" and u = "py '' minutes''"])
    (simp_all add: assms)

lemma agree_26_10:
  assumes "pw \<noteq> []" "alphabet_size pw = 26" "length pw = 10"
  shows "estimate_crack_time pw = Inr (spec_crack_time pw)"
  by (rule agree_divided[where a = "141167095653376" and e = "16" and n = "4850464472820429"
        and ey = "4" and ny = "5518750689075688" and v = "19"
        and lo = "3600" and hi = "86400" and d = "3600" and u = "py '' hours''"])
    (simp_all add: assms)

lemma agree_26_11:
  assumes "pw \<noteq> []" "alphabet_size pw = 26" "length pw = 11"
  shows "estimate_crack_time pw = Inr (spec_crack_time pw)"
  by (rule agree_divided[where a = "3670344486987776" and e = "20" and n = "7882004768333198"
        and ey = "4" and ny = "5978646579831996" and v = "21"
        and lo = "86400" and hi = "31536000" and d = "86400" and u = "py '' days''"])
    (simp_all add: assms)

lemma agree_26_12:
  assumes "pw \<noteq> []" "alphabet_size pw = 26" "length pw = 12"
  shows "estimate_crack_time pw = Inr (spec_crack_time pw)"
  by (rule agree_divided[where a = "95428956661682176" and e = "25" and n = "6404128874270723"
        and ey = "0" and ny = "6814019115644138" and v = "1"
        and lo = "31536000" and hi = "31536000000" and d = "31536000" and u = "py '' years''"])
    (simp_all add: assms)

lemma agree_26_13:
  assumes "pw \<noteq> []" "alphabet_size pw = 26" "length pw = 13"
  shows "estimate_crack_time pw = Inr (spec_crack_time pw)"
  by (rule agree_divided[where a = "2481152873203736576" and e = "30" and n = "5203354710344963"
        and ey = "5" and ny = "5536390531460862" and v = "39"
        and lo = "31536000" and hi = "31536000000" and d = "31536000" and u = "py '' years''"])
    (simp_all add: assms)

lemma agree_26_14:
  assumes "pw \<noteq> []" "alphabet_size pw = 26" "length pw = 14"
  shows "estimate_crack_time pw = Inr (spec_crack_time pw)"
  by (rule agree_centuries_value[where a = "64509974703297150976" and e = "34" and n = "8455451404310564"])
    (simp_all add: assms)

lemma agree_alphabet_26:
  assumes "pw \<noteq> []" "alphabet_size pw = 26" "length pw \<le> 160"
  shows "estimate_crack_time pw = Inr (spec_crack_time pw)"
proof -
  have "1 \<le> length pw" using assms(1) by (cases pw) simp_all
  then
  consider "length pw = 1" | "length pw = 2" | "length pw = 3" | "length pw = 4"
    | "length pw = 5" | "length pw = 6" | "length pw = 7" | "length pw = 8"
    | "length pw = 9" | "length pw = 10" | "length pw = 11" | "length pw = 12"
    | "length pw = 13" | "length pw = 14" | "15 \<le> length pw"
    by atomize_elim arith
  then show ?thesis
  proof cases
    case 1
    then show ?thesis by (rule agree_26_1[OF assms(1,2)])
  next
    case 2
    then show ?thesis by (rule agree_26_2[OF assms(1,2)])
  next
    case 3
    then show ?thesis by (rule agree_26_3[OF assms(1,2)])
  next
    case 4
    then show ?thesis by (rule agree_26_4[OF assms(1,2)])
  next
    case 5
    then show ?thesis by (rule agree_26_5[OF assms(1,2)])
  next
    case 6
    then show ?thesis by (rule agree_26_6[OF assms(1,2)])
  next
    case 7
    then show ?thesis by (rule agree_26_7[OF assms(1,2)])
  next
    case 8
    then show ?thesis by (rule agree_26_8[OF assms(1,2)])
  next
    case 9
    then show ?thesis by (rule agree_26_9[OF assms(1,2)])
  next
    case 10
    then show ?thesis by (rule agree_26_10[OF assms(1,2)])
  next
    case 11
    then show ?thesis by (rule agree_26_11[OF assms(1,2)])
  next
    case 12
    then show ?thesis by (rule agree_26_12[OF assms(1,2)])
  next
    case 13
    then show ?thesis by (rule agree_26_13[OF assms(1,2)])
  next
    case 14
    then show ?thesis by (rule agree_26_14[OF assms(1,2)])
  next
    case 15
    have "(26::int) ^ 15 \<le> 26 ^ length pw" using 15 by (intro power_increasing) simp_all
    then have l: "2 ^ 35 * 2000000000 \<le> alphabet_size pw ^ length pw"
      unfolding assms(2) by simp
    have "(26::int) ^ length pw \<le> 26 ^ 160" using assms(3) by (intro power_increasing) simp_all
    then have u: "alphabet_size pw ^ length pw \<le> 2 ^ 1023 * 2000000000"
      unfolding assms(2) by simp
    show ?thesis using assms(1) l u by (rule agree_centuries)
  qed
qed

lemma agree_32_1:
  assumes "pw \<noteq> []" "alphabet_size pw = 32" "length pw = 1"
  shows "estimate_crack_time pw = Inr (spec_crack_time pw)"
  by (rule agree_instantly[where a = "32" and e = "-26" and n = "4835703278458517"])
    (simp_all add: assms)

lemma agree_32_2:
  assumes "pw \<noteq> []" "alphabet_size pw = 32" "length pw = 2"
  shows "estimate_crack_time pw = Inr (spec_crack_time pw)"
  by (rule agree_instantly[where a = "1024" and e = "-21" and n = "4835703278458517"])
    (simp_all add: assms)

lemma agree_32_3:
  assumes "pw \<noteq> []" "alphabet_size pw = 32" "length pw = 3"
  shows "estimate_crack_time pw = Inr (spec_crack_time pw)"
  by (rule agree_instantly[where a = "32768" and e = "-16" and n = "4835703278458517"])
    (simp_all add: assms)

lemma agree_32_4:
  assumes "pw \<noteq> []" "alphabet_size pw = 32" "length pw = 4"
  shows "estimate_crack_time pw = Inr (spec_crack_time pw)"
  by (rule agree_instantly[where a = "1048576" and e = "-11" and n = "4835703278458517"])
    (simp_all add: assms)

lemma agree_32_5:
  assumes "pw \<noteq> []" "alphabet_size pw = 32" "length pw = 5"
  shows "estimate_crack_time pw = Inr (spec_crack_time pw)"
  by (rule agree_instantly[where a = "33554432" and e = "-6" and n = "4835703278458517"])
    (simp_all add: assms)

lemma agree_32_6:
  assumes "pw \<noteq> []" "alphabet_size pw = 32" "length pw = 6"
  shows "estimate_crack_time pw = Inr (spec_crack_time pw)"
  by (rule agree_instantly[where a = "1073741824" and e = "-1" and n = "4835703278458517"])
    (simp_all add: assms)

lemma agree_32_7:
  assumes "pw \<noteq> []" "alphabet_size pw = 32" "length pw = 7"
  shows "estimate_crack_time pw = Inr (spec_crack_time pw)"
  by (rule agree_seconds[where a = "34359738368" and e = "4" and n = "4835703278458517" and v = "17"])
    (simp_all add: assms)

lemma agree_32_8:
  assumes "pw \<noteq> []" "alphabet_size pw = 32" "length pw = 8"
  shows "estimate_crack_time pw = Inr (spec_crack_time pw)"
  by (rule agree_divided[where a = "1099511627776" and e = "9" and n = "4835703278458517"
        and ey = "3" and ny = "5158083497022418" and v = "9"
        and lo = "60" and hi = "3600" and d = "60" and u = "py '' minutes''"])
    (simp_all add: assms)

lemma agree_32_9:
  assumes "pw \<noteq> []" "alphabet_size pw = 32" "length pw = 9"
  shows "estimate_crack_time pw = Inr (spec_crack_time pw)"
  by (rule agree_divided[where a = "35184372088832" and e = "14" and n = "4835703278458517"
        and ey = "2" and ny = "5501955730157246" and v = "4"
        and lo = "3600" and hi = "86400" and d = "3600" and u = "py '' hours''"])
    (simp_all add: assms)

lemma agree_32_10:
  assumes "pw \<noteq> []" "alphabet_size pw = 32" "length pw = 10"
  shows "estimate_crack_time pw = Inr (spec_crack_time pw)"
  by (rule agree_divided[where a = "1125899906842624" and e = "19" and n = "4835703278458517"
        and ey = "2" and ny = "7335940973542995" and v = "6"
        and lo = "86400" and hi = "31536000" and d = "86400" and u = "py '' days''"])
    (simp_all add: assms)

lemma agree_32_11:
  assumes "pw \<noteq> []" "alphabet_size pw = 32" "length pw = 11"
  shows "estimate_crack_time pw = Inr (spec_crack_time pw)"
  by (rule agree_divided[where a = "36028797018963968" and e = "24" and n = "4835703278458517"
        and ey = "7" and ny = "7335940973542995" and v = "208"
        and lo = "86400" and hi = "31536000" and d = "86400" and u = "py '' days''"])
    (simp_all add: assms)

lemma agree_32_12:
  assumes "pw \<noteq> []" "alphabet_size pw = 32" "length pw = 12"
  shows "estimate_crack_time pw = Inr (spec_crack_time pw)"
  by (rule agree_divided[where a = "1152921504606846976" and e = "29" and n = "4835703278458517"
        and ey = "4" and ny = "5145207915690429" and v = "18"
        and lo = "31536000" and hi = "31536000000" and d = "31536000" and u = "py '' years''"])
    (simp_all add: assms)

lemma agree_32_13:
  assumes "pw \<noteq> []" "alphabet_size pw = 32" "length pw = 13"
  shows "estimate_crack_time pw = Inr (spec_crack_time pw)"
  by (rule agree_divided[where a = "36893488147419103232" and e = "34" and n = "4835703278458517"
        and ey = "9" and ny = "5145207915690429" and v = "584"
        and lo = "31536000" and hi = "31536000000" and d = "31536000" and u = "py '' years''"])
    (simp_all add: assms)

lemma agree_alphabet_32:
  assumes "pw \<noteq> []" "alphabet_size pw = 32" "length pw \<le> 160"
  shows "estimate_crack_time pw = Inr (spec_crack_time pw)"
proof -
  have "1 \<le> length pw" using assms(1) by (cases pw) simp_all
  then
  consider "length pw = 1" | "length pw = 2" | "length pw = 3" | "length pw = 4"
    | "length pw = 5" | "length pw = 6" | "length pw = 7" | "length pw = 8"
    | "length pw = 9" | "length pw = 10" | "length pw = 11" | "length pw = 12"
    | "length pw = 13" | "14 \<le> length pw"
    by atomize_elim arith
  then show ?thesis
  proof cases
    case 1
    then show ?thesis by (rule agree_32_1[OF assms(1,2)])
  next
    case 2
    then show ?thesis by (rule agree_32_2[OF assms(1,2)])
  next
    case 3
    then show ?thesis by (rule agree_32_3[OF assms(1,2)])
  next
    case 4
    then show ?thesis by (rule agree_32_4[OF assms(1,2)])
  next
    case 5
    then show ?thesis by (rule agree_32_5[OF assms(1,2)])
  next
    case 6
    then show ?thesis by (rule agree_32_6[OF assms(1,2)])
  next
    case 7
    then show ?thesis by (rule agree_32_7[OF assms(1,2)])
  next
    case 8
    then show ?thesis by (rule agree_32_8[OF assms(1,2)])
  next
    case 9
    then show ?thesis by (rule agree_32_9[OF assms(1,2)])
  next
    case 10
    then show ?thesis by (rule agree_32_10[OF assms(1,2)])
  next
    case 11
    then show ?thesis by (rule agree_32_11[OF assms(1,2)])
  next
    case 12
    then show ?thesis by (rule agree_32_12[OF assms(1,2)])
  next
    case 13
    then show ?thesis by (rule agree_32_13[OF assms(1,2)])
  next
    case 14
    have "(32::int) ^ 14 \<le> 32 ^ length pw" using 14 by (intro power_increasing) simp_all
    then have l: "2 ^ 35 * 2000000000 \<le> alphabet_size pw ^ length pw"
      unfolding assms(2) by simp
    have "(32::int) ^ length pw \<le> 32 ^ 160" using assms(3) by (intro power_increasing) simp_all
    then have u: "alphabet_size pw ^ length pw \<le> 2 ^ 1023 * 2000000000"
      unfolding assms(2) by simp
    show ?thesis using assms(1) l u by (rule agree_centuries)
  qed
qed

lemma agree_36_1:
  assumes "pw \<noteq> []" "alphabet_size pw = 36" "length pw = 1"
  shows "estimate_crack_time pw = Inr (spec_crack_time pw)"
  by (rule agree_instantly[where a = "36" and e = "-26" and n = "5440166188265831"])
    (simp_all add: assms)

lemma agree_36_2:
  assumes "pw \<noteq> []" "alphabet_size pw = 36" "length pw = 2"
  shows "estimate_crack_time pw = Inr (spec_crack_time pw)"
  by (rule agree_instantly[where a = "1296" and e = "-21" and n = "6120186961799060"])
    (simp_all add: assms)

lemma agree_36_3:
  assumes "pw \<noteq> []" "alphabet_size pw = 36" "length pw = 3"
  shows "estimate_crack_time pw = Inr (spec_crack_time pw)"
  by (rule agree_instantly[where a = "46656" and e = "-16" and n = "6885210332023943"])
    (simp_all add: assms)

lemma agree_36_4:
  assumes "pw \<noteq> []" "alphabet_size pw = 36" "length pw = 4"
  shows "estimate_crack_time pw = Inr (spec_crack_time pw)"
  by (rule agree_instantly[where a = "1679616" and e = "-11" and n = "7745861623526936"])
    (simp_all add: assms)

lemma agree_36_5:
  assumes "pw \<noteq> []" "alphabet_size pw = 36" "length pw = 5"
  shows "estimate_crack_time pw = Inr (spec_crack_time pw)"
  by (rule agree_instantly[where a = "60466176" and e = "-6" and n = "8714094326467803"])
    (simp_all add: assms)

lemma agree_36_6:
  assumes "pw \<noteq> []" "alphabet_size pw = 36" "length pw = 6"
  shows "estimate_crack_time pw = Inr (spec_crack_time pw)"
  by (rule agree_seconds[where a = "2176782336" and e = "0" and n = "4901678058638139" and v = "1"])
    (simp_all add: assms)

lemma agree_36_7:
  assumes "pw \<noteq> []" "alphabet_size pw = 36" "length pw = 7"
  shows "estimate_crack_time pw = Inr (spec_crack_time pw)"
  by (rule agree_seconds[where a = "78364164096" and e = "5" and n = "5514387815967906" and v = "39"])
    (simp_all add: assms)

lemma agree_36_8:
  assumes "pw \<noteq> []" "alphabet_size pw = 36" "length pw = 8"
  shows "estimate_crack_time pw = Inr (spec_crack_time pw)"
  by (rule agree_divided[where a = "2821109907456" and e = "10" and n = "6203686292963895"
        and ey = "4" and ny = "6617265379161488" and v = "23"
        and lo = "60" and hi = "3600" and d = "60" and u = "py '' minutes''"])
    (simp_all add: assms)

lemma agree_36_9:
  assumes "pw \<noteq> []" "alphabet_size pw = 36" "length pw = 9"
  shows "estimate_crack_time pw = Inr (spec_crack_time pw)"
  by (rule agree_divided[where a = "101559956668416" and e = "15" and n = "6979147079584381"
        and ey = "3" and ny = "7940718454993785" and v = "14"
        and lo = "3600" and hi = "86400" and d = "3600" and u = "py '' hours''"])
    (simp_all add: assms)

lemma agree_36_10:
  assumes "pw \<noteq> []" "alphabet_size pw = 36" "length pw = 10"
  shows "estimate_crack_time pw = Inr (spec_crack_time pw)"
  by (rule agree_divided[where a = "3656158440062976" and e = "20" and n = "7851540464532429"
        and ey = "4" and ny = "5955538841245339" and v = "21"
        and lo = "86400" and hi = "31536000" and d = "86400" and u = "py '' days''"])
    (simp_all add: assms)

lemma agree_36_11:
  assumes "pw \<noteq> []" "alphabet_size pw = 36" "length pw = 11"
  shows "estimate_crack_time pw = Inr (spec_crack_time pw)"
  by (rule agree_divided[where a = "131621703842267136" and e = "25" and n = "8832983022598983"
        and ey = "1" and ny = "4699164893914130" and v = "2"
        and lo = "31536000" and hi = "31536000000" and d = "31536000" and u = "py '' years''"])
    (simp_all add: assms)

lemma agree_36_12:
  assumes "pw \<noteq> []" "alphabet_size pw = 36" "length pw = 12"
  shows "estimate_crack_time pw = Inr (spec_crack_time pw)"
  by (rule agree_divided[where a = "4738381338321616896" and e = "31" and n = "4968552950211928"
        and ey = "6" and ny = "5286560505653397" and v = "75"
        and lo = "31536000" and hi = "31536000000" and d = "31536000" and u = "py '' years''"])
    (simp_all add: assms)

lemma agree_alphabet_36:
  assumes "pw \<noteq> []" "alphabet_size pw = 36" "length pw \<le> 160"
  shows "estimate_crack_time pw = Inr (spec_crack_time pw)"
proof -
  have "1 \<le> length pw" using assms(1) by (cases pw) simp_all
  then
  consider "length pw = 1" | "length pw = 2" | "length pw = 3" | "length pw = 4"
    | "length pw = 5" | "length pw = 6" | "length pw = 7" | "length pw = 8"
    | "length pw = 9" | "length pw = 10" | "length pw = 11" | "length pw = 12"
    | "13 \<le> length pw"
    by atomize_elim arith
  then show ?thesis
  proof cases
    case 1
    then show ?thesis by (rule agree_36_1[OF assms(1,2)])
  next
    case 2
    then show ?thesis by (rule agree_36_2[OF assms(1,2)])
  next
    case 3
    then show ?thesis by (rule agree_36_3[OF assms(1,2)])
  next
    case 4
    then show ?thesis by (rule agree_36_4[OF assms(1,2)])
  next
    case 5
    then show ?thesis by (rule agree_36_5[OF assms(1,2)])
  next
    case 6
    then show ?thesis by (rule agree_36_6[OF assms(1,2)])
  next
    case 7
    then show ?thesis by (rule agree_36_7[OF assms(1,2)])
  next
    case 8
    then show ?thesis by (rule agree_36_8[OF assms(1,2)])
  next
    case 9
    then show ?thesis by (rule agree_36_9[OF assms(1,2)])
  next
    case 10
    then show ?thesis by (rule agree_36_10[OF assms(1,2)])
  next
    case 11
    then show ?thesis by (rule agree_36_11[OF assms(1,2)])
  next
    case 12
    then show ?thesis by (rule agree_36_12[OF assms(1,2)])
  next
    case 13
    have "(36::int) ^ 13 \<le> 36 ^ length pw" using 13 by (intro power_increasing) simp_all
    then have l: "2 ^ 35 * 2000000000 \<le> alphabet_size pw ^ length pw"
      unfolding assms(2) by simp
    have "(36::int) ^ length pw \<le> 36 ^ 160" using assms(3) by (intro power_increasing) simp_all
    then have u: "alphabet_size pw ^ length pw \<le> 2 ^ 1023 * 2000000000"
      unfolding assms(2) by simp
    show ?thesis using assms(1) l u by (rule agree_centuries)
  qed
qed

lemma agree_42_1:
  assumes "pw \<noteq> []" "alphabet_size pw = 42" "length pw = 1"
  shows "estimate_crack_time pw = Inr (spec_crack_time pw)"
  by (rule agree_instantly[where a = "42" and e = "-26" and n = "6346860552976803"])
    (simp_all add: assms)

lemma agree_42_2:
  assumes "pw \<noteq> []" "alphabet_size pw = 42" "length pw = 2"
  shows "estimate_crack_time pw = Inr (spec_crack_time pw)"
  by (rule agree_instantly[where a = "1764" and e = "-21" and n = "8330254475782054"])
    (simp_all add: assms)

lemma agree_42_3:
  assumes "pw \<noteq> []" "alphabet_size pw = 42" "length pw = 3"
  shows "estimate_crack_time pw = Inr (spec_crack_time pw)"
  by (rule agree_instantly[where a = "74088" and e = "-15" and n = "5466729499731973"])
    (simp_all add: assms)

lemma agree_42_4:
  assumes "pw \<noteq> []" "alphabet_size pw = 42" "length pw = 4"
  shows "estimate_crack_time pw = Inr (spec_crack_time pw)"
  by (rule agree_instantly[where a = "3111696" and e = "-10" and n = "7175082468398215"])
    (simp_all add: assms)

lemma agree_42_5:
  assumes "pw \<noteq> []" "alphabet_size pw = 42" "length pw = 5"
  shows "estimate_crack_time pw = Inr (spec_crack_time pw)"
  by (rule agree_instantly[where a = "130691232" and e = "-4" and n = "4708647869886328"])
    (simp_all add: assms)

lemma agree_42_6:
  assumes "pw \<noteq> []" "alphabet_size pw = 42" "length pw = 6"
  shows "estimate_crack_time pw = Inr (spec_crack_time pw)"
  by (rule agree_seconds[where a = "5489031744" and e = "1" and n = "6180100329225806" and v = "2"])
    (simp_all add: assms)

lemma agree_42_7:
  assumes "pw \<noteq> []" "alphabet_size pw = 42" "length pw = 7"
  shows "estimate_crack_time pw = Inr (spec_crack_time pw)"
  by (rule agree_divided[where a = "230539333248" and e = "6" and n = "8111381682108870"
        and ey = "0" and ny = "8652140460916128" and v = "1"
        and lo = "60" and hi = "3600" and d = "60" and u = "py '' minutes''"])
    (simp_all add: assms)

lemma agree_42_8:
  assumes "pw \<noteq> []" "alphabet_size pw = 42" "length pw = 8"
  shows "estimate_crack_time pw = Inr (spec_crack_time pw)"
  by (rule agree_divided[where a = "9682651996416" and e = "12" and n = "5323094228883946"
        and ey = "0" and ny = "6056498322641290" and v = "1"
        and lo = "3600" and hi = "86400" and d = "3600" and u = "py '' hours''"])
    (simp_all add: assms)

lemma agree_42_9:
  assumes "pw \<noteq> []" "alphabet_size pw = 42" "length pw = 9"
  shows "estimate_crack_time pw = Inr (spec_crack_time pw)"
  by (rule agree_divided[where a = "406671383849472" and e = "17" and n = "6986561175410179"
        and ey = "1" and ny = "5299436032311128" and v = "2"
        and lo = "86400" and hi = "31536000" and d = "86400" and u = "py '' days''"])
    (simp_all add: assms)

lemma agree_42_10:
  assumes "pw \<noteq> []" "alphabet_size pw = 42" "length pw = 10"
  shows "estimate_crack_time pw = Inr (spec_crack_time pw)"
  by (rule agree_divided[where a = "17080198121677824" and e = "23" and n = "4584930771362930"
        and ey = "6" and ny = "6955509792408356" and v = "98"
        and lo = "86400" and hi = "31536000" and d = "86400" and u = "py '' days''"])
    (simp_all add: assms)

lemma agree_42_11:
  assumes "pw \<noteq> []" "alphabet_size pw = 42" "length pw = 11"
  shows "estimate_crack_time pw = Inr (spec_crack_time pw)"
  by (rule agree_divided[where a = "717368321110468608" and e = "28" and n = "6017721637413846"
        and ey = "3" and ny = "6402880247258103" and v = "11"
        and lo = "31536000" and hi = "31536000000" and d = "31536000" and u = "py '' years''"])
    (simp_all add: assms)

lemma agree_42_12:
  assumes "pw \<noteq> []" "alphabet_size pw = 42" "length pw = 12"
  shows "estimate_crack_time pw = Inr (spec_crack_time pw)"
  by (rule agree_divided[where a = "30129469486639681536" and e = "33" and n = "7898259649105673"
        and ey = "8" and ny = "8403780324526261" and v = "477"
        and lo = "31536000" and hi = "31536000000" and d = "31536000" and u = "py '' years''"])
    (simp_all add: assms)

lemma agree_alphabet_42:
  assumes "pw \<noteq> []" "alphabet_size pw = 42" "length pw \<le> 160"
  shows "estimate_crack_time pw = Inr (spec_crack_time pw)"
proof -
  have "1 \<le> length pw" using assms(1) by (cases pw) simp_all
  then
  consider "length pw = 1" | "length pw = 2" | "length pw = 3" | "length pw = 4"
    | "length pw = 5" | "length pw = 6" | "length pw = 7" | "length pw = 8"
    | "length pw = 9" | "length pw = 10" | "length pw = 11" | "length pw = 12"
    | "13 \<le> length pw"
    by atomize_elim arith
  then show ?thesis
  proof cases
    case 1
    then show ?thesis by (rule agree_42_1[OF assms(1,2)])
  next
    case 2
    then show ?thesis by (rule agree_42_2[OF assms(1,2)])
  next
    case 3
    then show ?thesis by (rule agree_42_3[OF assms(1,2)])
  next
    case 4
    then show ?thesis by (rule agree_42_4[OF assms(1,2)])
  next
    case 5
    then show ?thesis by (rule agree_42_5[OF assms(1,2)])
  next
    case 6
    then show ?thesis by (rule agree_42_6[OF assms(1,2)])
  next
    case 7
    then show ?thesis by (rule agree_42_7[OF assms(1,2)])
  next
    case 8
    then show ?thesis by (rule agree_42_8[OF assms(1,2)])
  next
    case 9
    then show ?thesis by (rule agree_42_9[OF assms(1,2)])
  next
    case 10
    then show ?thesis by (rule agree_42_10[OF assms(1,2)])
  next
    case 11
    then show ?thesis by (rule agree_42_11[OF assms(1,2)])
  next
    case 12
    then show ?thesis by (rule agree_42_12[OF assms(1,2)])
  next
    case 13
    have "(42::int) ^ 13 \<le> 42 ^ length pw" using 13 by (intro power_increasing) simp_all
    then have l: "2 ^ 35 * 2000000000 \<le> alphabet_size pw ^ length pw"
      unfolding assms(2) by simp
    have "(42::int) ^ length pw \<le> 42 ^ 160" using assms(3) by (intro power_increasing) simp_all
    then have u: "alphabet_size pw ^ length pw \<le> 2 ^ 1023 * 2000000000"
      unfolding assms(2) by simp
    show ?thesis using assms(1) l u by (rule agree_centuries)
  qed
qed

lemma agree_52_1:
  assumes "pw \<noteq> []" "alphabet_size pw = 52" "length pw = 1"
  shows "estimate_crack_time pw = Inr (spec_crack_time pw)"
  by (rule agree_instantly[where a = "52" and e = "-26" and n = "7858017827495090"])
    (simp_all add: assms)

lemma agree_52_2:
  assumes "pw \<noteq> []" "alphabet_size pw = 52" "length pw = 2"
  shows "estimate_crack_time pw = Inr (spec_crack_time pw)"
  by (rule agree_instantly[where a = "2704" and e = "-20" and n = "6384639484839760"])
    (simp_all add: assms)

lemma agree_52_3:
  assumes "pw \<noteq> []" "alphabet_size pw = 52" "length pw = 3"
  shows "estimate_crack_time pw = Inr (spec_crack_time pw)"
  by (rule agree_instantly[where a = "140608" and e = "-14" and n = "5187519581432305"])
    (simp_all add: assms)

lemma agree_52_4:
  assumes "pw \<noteq> []" "alphabet_size pw = 52" "length pw = 4"
  shows "estimate_crack_time pw = Inr (spec_crack_time pw)"
  by (rule agree_instantly[where a = "7311616" and e = "-9" and n = "8429719319827496"])
    (simp_all add: assms)

lemma agree_52_5:
  assumes "pw \<noteq> []" "alphabet_size pw = 52" "length pw = 5"
  shows "estimate_crack_time pw = Inr (spec_crack_time pw)"
  by (rule agree_instantly[where a = "380204032" and e = "-3" and n = "6849146947359841"])
    (simp_all add: assms)

lemma agree_52_6:
  assumes "pw \<noteq> []" "alphabet_size pw = 52" "length pw = 6"
  shows "estimate_crack_time pw = Inr (spec_crack_time pw)"
  by (rule agree_seconds[where a = "19770609664" and e = "3" and n = "5564931894729870" and v = "9"])
    (simp_all add: assms)

lemma agree_52_7:
  assumes "pw \<noteq> []" "alphabet_size pw = 52" "length pw = 7"
  shows "estimate_crack_time pw = Inr (spec_crack_time pw)"
  by (rule agree_divided[where a = "1028071702528" and e = "9" and n = "4521507164468020"
        and ey = "3" and ny = "4822940975432555" and v = "8"
        and lo = "60" and hi = "3600" and d = "60" and u = "py '' minutes''"])
    (simp_all add: assms)

lemma agree_52_8:
  assumes "pw \<noteq> []" "alphabet_size pw = 52" "length pw = 8"
  shows "estimate_crack_time pw = Inr (spec_crack_time pw)"
  by (rule agree_divided[where a = "53459728531456" and e = "14" and n = "7347449142260532"
        and ey = "2" and ny = "8359764357416428" and v = "7"
        and lo = "3600" and hi = "86400" and d = "3600" and u = "py '' hours''"])
    (simp_all add: assms)

lemma agree_52_9:
  assumes "pw \<noteq> []" "alphabet_size pw = 52" "length pw = 9"
  shows "estimate_crack_time pw = Inr (spec_crack_time pw)"
  by (rule agree_divided[where a = "2779905883635712" and e = "20" and n = "5969802428086682"
        and ey = "4" and ny = "4528205693600565" and v = "16"
        and lo = "86400" and hi = "31536000" and d = "86400" and u = "py '' days''"])
    (simp_all add: assms)

lemma agree_52_10:
  assumes "pw \<noteq> []" "alphabet_size pw = 52" "length pw = 10"
  shows "estimate_crack_time pw = Inr (spec_crack_time pw)"
  by (rule agree_divided[where a = "144555105949057024" and e = "26" and n = "4850464472820429"
        and ey = "1" and ny = "5160913886405027" and v = "2"
        and lo = "31536000" and hi = "31536000000" and d = "31536000" and u = "py '' years''"])
    (simp_all add: assms)

lemma agree_52_11:
  assumes "pw \<noteq> []" "alphabet_size pw = 52" "length pw = 11"
  shows "estimate_crack_time pw = Inr (spec_crack_time pw)"
  by (rule agree_divided[where a = "7516865509350965248" and e = "31" and n = "7882004768333198"
        and ey = "6" and ny = "8386485065408170" and v = "119"
        and lo = "31536000" and hi = "31536000000" and d = "31536000" and u = "py '' years''"])
    (simp_all add: assms)

lemma agree_alphabet_52:
  assumes "pw \<noteq> []" "alphabet_size pw = 52" "length pw \<le> 160"
  shows "estimate_crack_time pw = Inr (spec_crack_time pw)"
proof -
  have "1 \<le> length pw" using assms(1) by (cases pw) simp_all
  then
  consider "length pw = 1" | "length pw = 2" | "length pw = 3" | "length pw = 4"
    | "length pw = 5" | "length pw = 6" | "length pw = 7" | "length pw = 8"
    | "length pw = 9" | "length pw = 10" | "length pw = 11" | "12 \<le> length pw"
    by atomize_elim arith
  then show ?thesis
  proof cases
    case 1
    then show ?thesis by (rule agree_52_1[OF assms(1,2)])
  next
    case 2
    then show ?thesis by (rule agree_52_2[OF assms(1,2)])
  next
    case 3
    then show ?thesis by (rule agree_52_3[OF assms(1,2)])
  next
    case 4
    then show ?thesis by (rule agree_52_4[OF assms(1,2)])
  next
    case 5
    then show ?thesis by (rule agree_52_5[OF assms(1,2)])
  next
    case 6
    then show ?thesis by (rule agree_52_6[OF assms(1,2)])
  next
    case 7
    then show ?thesis by (rule agree_52_7[OF assms(1,2)])
  next
    case 8
    then show ?thesis by (rule agree_52_8[OF assms(1,2)])
  next
    case 9
    then show ?thesis by (rule agree_52_9[OF assms(1,2)])
  next
    case 10
    then show ?thesis by (rule agree_52_10[OF assms(1,2)])
  next
    case 11
    then show ?thesis by (rule agree_52_11[OF assms(1,2)])
  next
    case 12
    have "(52::int) ^ 12 \<le> 52 ^ length pw" using 12 by (intro power_increasing) simp_all
    then have l: "2 ^ 35 * 2000000000 \<le> alphabet_size pw ^ length pw"
      unfolding assms(2) by simp
    have "(52::int) ^ length pw \<le> 52 ^ 160" using assms(3) by (intro power_increasing) simp_all
    then have u: "alphabet_size pw ^ length pw \<le> 2 ^ 1023 * 2000000000"
      unfolding assms(2) by simp
    show ?thesis using assms(1) l u by (rule agree_centuries)
  qed
qed

lemma agree_58_1:
  assumes "pw \<noteq> []" "alphabet_size pw = 58" "length pw = 1"
  shows "estimate_crack_time pw = Inr (spec_crack_time pw)"
  by (rule agree_instantly[where a = "58" and e = "-26" and n = "8764712192206062"])
    (simp_all add: assms)

lemma agree_58_2:
  assumes "pw \<noteq> []" "alphabet_size pw = 58" "length pw = 2"
  shows "estimate_crack_time pw = Inr (spec_crack_time pw)"
  by (rule agree_instantly[where a = "3364" and e = "-20" and n = "7943020424186743"])
    (simp_all add: assms)

lemma agree_58_3:
  assumes "pw \<noteq> []" "alphabet_size pw = 58" "length pw = 3"
  shows "estimate_crack_time pw = Inr (spec_crack_time pw)"
  by (rule agree_instantly[where a = "195112" and e = "-14" and n = "7198362259419236"])
    (simp_all add: assms)

lemma agree_58_4:
  assumes "pw \<noteq> []" "alphabet_size pw = 58" "length pw = 4"
  shows "estimate_crack_time pw = Inr (spec_crack_time pw)"
  by (rule agree_instantly[where a = "11316496" and e = "-8" and n = "6523515797598683"])
    (simp_all add: assms)

lemma agree_58_5:
  assumes "pw \<noteq> []" "alphabet_size pw = 58" "length pw = 5"
  shows "estimate_crack_time pw = Inr (spec_crack_time pw)"
  by (rule agree_instantly[where a = "656356768" and e = "-2" and n = "5911936191573806"])
    (simp_all add: assms)

lemma agree_58_6:
  assumes "pw \<noteq> []" "alphabet_size pw = 58" "length pw = 6"
  shows "estimate_crack_time pw = Inr (spec_crack_time pw)"
  by (rule agree_seconds[where a = "38068692544" and e = "4" and n = "5357692173613762" and v = "19"])
    (simp_all add: assms)

lemma agree_58_7:
  assumes "pw \<noteq> []" "alphabet_size pw = 58" "length pw = 7"
  shows "estimate_crack_time pw = Inr (spec_crack_time pw)"
  by (rule agree_divided[where a = "2207984167552" and e = "10" and n = "4855408532337472"
        and ey = "4" and ny = "5179102434493303" and v = "18"
        and lo = "60" and hi = "3600" and d = "60" and u = "py '' minutes''"])
    (simp_all add: assms)

lemma agree_58_8:
  assumes "pw \<noteq> []" "alphabet_size pw = 58" "length pw = 8"
  shows "estimate_crack_time pw = Inr (spec_crack_time pw)"
  by (rule agree_divided[where a = "128063081718016" and e = "15" and n = "8800427964861667"
        and ey = "4" and ny = "5006465686676859" and v = "17"
        and lo = "3600" and hi = "86400" and d = "3600" and u = "py '' hours''"])
    (simp_all add: assms)

lemma agree_58_9:
  assumes "pw \<noteq> []" "alphabet_size pw = 58" "length pw = 9"
  shows "estimate_crack_time pw = Inr (spec_crack_time pw)"
  by (rule agree_divided[where a = "7427658739644928" and e = "21" and n = "7975387843155886"
        and ey = "5" and ny = "6049479371401205" and v = "42"
        and lo = "86400" and hi = "31536000" and d = "86400" and u = "py '' days''"])
    (simp_all add: assms)

lemma agree_58_10:
  assumes "pw \<noteq> []" "alphabet_size pw = 58" "length pw = 10"
  shows "estimate_crack_time pw = Inr (spec_crack_time pw)"
  by (rule agree_divided[where a = "430804206899405824" and e = "27" and n = "7227695232860022"
        and ey = "2" and ny = "7690297063918245" and v = "6"
        and lo = "31536000" and hi = "31536000000" and d = "31536000" and u = "py '' years''"])
    (simp_all add: assms)

lemma agree_58_11:
  assumes "pw \<noteq> []" "alphabet_size pw = 58" "length pw = 11"
  shows "estimate_crack_time pw = Inr (spec_crack_time pw)"
  by (rule agree_divided[where a = "24986644000165537792" and e = "33" and n = "6550098804779395"
        and ey = "8" and ny = "6969331714175910" and v = "396"
        and lo = "31536000" and hi = "31536000000" and d = "31536000" and u = "py '' years''"])
    (simp_all add: assms)

lemma agree_alphabet_58:
  assumes "pw \<noteq> []" "alphabet_size pw = 58" "length pw \<le> 160"
  shows "estimate_crack_time pw = Inr (spec_crack_time pw)"
proof -
  have "1 \<le> length pw" using assms(1) by (cases pw) simp_all
  then
  consider "length pw = 1" | "length pw = 2" | "length pw = 3" | "length pw = 4"
    | "length pw = 5" | "length pw = 6" | "length pw = 7" | "length pw = 8"
    | "length pw = 9" | "length pw = 10" | "length pw = 11" | "12 \<le> length pw"
    by atomize_elim arith
  then show ?thesis
  proof cases
    case 1
    then show ?thesis by (rule agree_58_1[OF assms(1,2)])
  next
    case 2
    then show ?thesis by (rule agree_58_2[OF assms(1,2)])
  next
    case 3
    then show ?thesis by (rule agree_58_3[OF assms(1,2)])
  next
    case 4
    then show ?thesis by (rule agree_58_4[OF assms(1,2)])
  next
    case 5
    then show ?thesis by (rule agree_58_5[OF assms(1,2)])
  next
    case 6
    then show ?thesis by (rule agree_58_6[OF assms(1,2)])
  next
    case 7
    then show ?thesis by (rule agree_58_7[OF assms(1,2)])
  next
    case 8
    then show ?thesis by (rule agree_58_8[OF assms(1,2)])
  next
    case 9
    then show ?thesis by (rule agree_58_9[OF assms(1,2)])
  next
    case 10
    then show ?thesis by (rule agree_58_10[OF assms(1,2)])
  next
    case 11
    then show ?thesis by (rule agree_58_11[OF assms(1,2)])
  next
    case 12
    have "(58::int) ^ 12 \<le> 58 ^ length pw" using 12 by (intro power_increasing) simp_all
    then have l: "2 ^ 35 * 2000000000 \<le> alphabet_size pw ^ length pw"
      unfolding assms(2) by simp
    have "(58::int) ^ length pw \<le> 58 ^ 160" using assms(3) by (intro power_increasing) simp_all
    then have u: "alphabet_size pw ^ length pw \<le> 2 ^ 1023 * 2000000000"
      unfolding assms(2) by simp
    show ?thesis using assms(1) l u by (rule agree_centuries)
  qed
qed

lemma agree_62_1:
  assumes "pw \<noteq> []" "alphabet_size pw = 62" "length pw = 1"
  shows "estimate_crack_time pw = Inr (spec_crack_time pw)"
  by (rule agree_instantly[where a = "62" and e = "-25" and n = "4684587551006688"])
    (simp_all add: assms)

lemma agree_62_2:
  assumes "pw \<noteq> []" "alphabet_size pw = 62" "length pw = 2"
  shows "estimate_crack_time pw = Inr (spec_crack_time pw)"
  by (rule agree_instantly[where a = "3844" and e = "-19" and n = "4538194190037729"])
    (simp_all add: assms)

lemma agree_62_3:
  assumes "pw \<noteq> []" "alphabet_size pw = 62" "length pw = 3"
  shows "estimate_crack_time pw = Inr (spec_crack_time pw)"
  by (rule agree_instantly[where a = "238328" and e = "-14" and n = "8792751243198100"])
    (simp_all add: assms)

lemma agree_62_4:
  assumes "pw \<noteq> []" "alphabet_size pw = 62" "length pw = 4"
  shows "estimate_crack_time pw = Inr (spec_crack_time pw)"
  by (rule agree_instantly[where a = "14776336" and e = "-8" and n = "8517977766848159"])
    (simp_all add: assms)

lemma agree_62_5:
  assumes "pw \<noteq> []" "alphabet_size pw = 62" "length pw = 5"
  shows "estimate_crack_time pw = Inr (spec_crack_time pw)"
  by (rule agree_instantly[where a = "916132832" and e = "-2" and n = "8251790961634154"])
    (simp_all add: assms)

lemma agree_62_6:
  assumes "pw \<noteq> []" "alphabet_size pw = 62" "length pw = 6"
  shows "estimate_crack_time pw = Inr (spec_crack_time pw)"
  by (rule agree_seconds[where a = "56800235584" and e = "4" and n = "7993922494083087" and v = "28"])
    (simp_all add: assms)

lemma agree_62_7:
  assumes "pw \<noteq> []" "alphabet_size pw = 62" "length pw = 7"
  shows "estimate_crack_time pw = Inr (spec_crack_time pw)"
  by (rule agree_divided[where a = "3521614606208" and e = "10" and n = "7744112416142991"
        and ey = "4" and ny = "8260386577219190" and v = "29"
        and lo = "60" and hi = "3600" and d = "60" and u = "py '' minutes''"])
    (simp_all add: assms)

lemma agree_62_8:
  assumes "pw \<noteq> []" "alphabet_size pw = 62" "length pw = 8"
  shows "estimate_crack_time pw = Inr (spec_crack_time pw)"
  by (rule agree_divided[where a = "218340105584896" and e = "16" and n = "7502108903138522"
        and ey = "0" and ny = "5690488530973220" and v = "1"
        and lo = "86400" and hi = "31536000" and d = "86400" and u = "py '' days''"])
    (simp_all add: assms)

lemma agree_62_9:
  assumes "pw \<noteq> []" "alphabet_size pw = 62" "length pw = 9"
  shows "estimate_crack_time pw = Inr (spec_crack_time pw)"
  by (rule agree_divided[where a = "13537086546263552" and e = "22" and n = "7267667999915443"
        and ey = "6" and ny = "5512660764380306" and v = "78"
        and lo = "86400" and hi = "31536000" and d = "86400" and u = "py '' days''"])
    (simp_all add: assms)

lemma agree_62_10:
  assumes "pw \<noteq> []" "alphabet_size pw = 62" "length pw = 10"
  shows "estimate_crack_time pw = Inr (spec_crack_time pw)"
  by (rule agree_divided[where a = "839299365868340224" and e = "28" and n = "7040553374918086"
        and ey = "3" and ny = "7491177367486664" and v = "13"
        and lo = "31536000" and hi = "31536000000" and d = "31536000" and u = "py '' years''"])
    (simp_all add: assms)

lemma agree_62_11:
  assumes "pw \<noteq> []" "alphabet_size pw = 62" "length pw = 11"
  shows "estimate_crack_time pw = Inr (spec_crack_time pw)"
  by (rule agree_divided[where a = "52036560683837093888" and e = "34" and n = "6820536081951896"
        and ey = "9" and ny = "7257078074752706" and v = "825"
        and lo = "31536000" and hi = "31536000000" and d = "31536000" and u = "py '' years''"])
    (simp_all add: assms)

lemma agree_alphabet_62:
  assumes "pw \<noteq> []" "alphabet_size pw = 62" "length pw \<le> 160"
  shows "estimate_crack_time pw = Inr (spec_crack_time pw)"
proof -
  have "1 \<le> length pw" using assms(1) by (cases pw) simp_all
  then
  consider "length pw = 1" | "length pw = 2" | "length pw = 3" | "length pw = 4"
    | "length pw = 5" | "length pw = 6" | "length pw = 7" | "length pw = 8"
    | "length pw = 9" | "length pw = 10" | "length pw = 11" | "12 \<le> length pw"
    by atomize_elim arith
  then show ?thesis
  proof cases
    case 1
    then show ?thesis by (rule agree_62_1[OF assms(1,2)])
  next
    case 2
    then show ?thesis by (rule agree_62_2[OF assms(1,2)])
  next
    case 3
    then show ?thesis by (rule agree_62_3[OF assms(1,2)])
  next
    case 4
    then show ?thesis by (rule agree_62_4[OF assms(1,2)])
  next
    case 5
    then show ?thesis by (rule agree_62_5[OF assms(1,2)])
  next
    case 6
    then show ?thesis by (rule agree_62_6[OF assms(1,2)])
  next
    case 7
    then show ?thesis by (rule agree_62_7[OF assms(1,2)])
  next
    case 8
    then show ?thesis by (rule agree_62_8[OF assms(1,2)])
  next
    case 9
    then show ?thesis by (rule agree_62_9[OF assms(1,2)])
  next
    case 10
    then show ?thesis by (rule agree_62_10[OF assms(1,2)])
  next
    case 11
    then show ?thesis by (rule agree_62_11[OF assms(1,2)])
  next
    case 12
    have "(62::int) ^ 12 \<le> 62 ^ length pw" using 12 by (intro power_increasing) simp_all
    then have l: "2 ^ 35 * 2000000000 \<le> alphabet_size pw ^ length pw"
      unfolding assms(2) by simp
    have "(62::int) ^ length pw \<le> 62 ^ 160" using assms(3) by (intro power_increasing) simp_all
    then have u: "alphabet_size pw ^ length pw \<le> 2 ^ 1023 * 2000000000"
      unfolding assms(2) by simp
    show ?thesis using assms(1) l u by (rule agree_centuries)
  qed
qed

lemma agree_68_1:
  assumes "pw \<noteq> []" "alphabet_size pw = 68" "length pw = 1"
  shows "estimate_crack_time pw = Inr (spec_crack_time pw)"
  by (rule agree_instantly[where a = "68" and e = "-25" and n = "5137934733362174"])
    (simp_all add: assms)

lemma agree_68_2:
  assumes "pw \<noteq> []" "alphabet_size pw = 68" "length pw = 2"
  shows "estimate_crack_time pw = Inr (spec_crack_time pw)"
  by (rule agree_instantly[where a = "4624" and e = "-19" and n = "5459055654197310"])
    (simp_all add: assms)

lemma agree_68_3:
  assumes "pw \<noteq> []" "alphabet_size pw = 68" "length pw = 3"
  shows "estimate_crack_time pw = Inr (spec_crack_time pw)"
  by (rule agree_instantly[where a = "314432" and e = "-13" and n = "5800246632584642"])
    (simp_all add: assms)

lemma agree_68_4:
  assumes "pw \<noteq> []" "alphabet_size pw = 68" "length pw = 4"
  shows "estimate_crack_time pw = Inr (spec_crack_time pw)"
  by (rule agree_instantly[where a = "21381376" and e = "-7" and n = "6162762047121182"])
    (simp_all add: assms)

lemma agree_68_5:
  assumes "pw \<noteq> []" "alphabet_size pw = 68" "length pw = 5"
  shows "estimate_crack_time pw = Inr (spec_crack_time pw)"
  by (rule agree_instantly[where a = "1453933568" and e = "-1" and n = "6547934675066256"])
    (simp_all add: assms)

lemma agree_68_6:
  assumes "pw \<noteq> []" "alphabet_size pw = 68" "length pw = 6"
  shows "estimate_crack_time pw = Inr (spec_crack_time pw)"
  by (rule agree_seconds[where a = "98867482624" and e = "5" and n = "6957180592257897" and v = "49"])
    (simp_all add: assms)

lemma agree_68_7:
  assumes "pw \<noteq> []" "alphabet_size pw = 68" "length pw = 7"
  shows "estimate_crack_time pw = Inr (spec_crack_time pw)"
  by (rule agree_divided[where a = "6722988818432" and e = "11" and n = "7392004379274015"
        and ey = "5" and ny = "7884804671225616" and v = "56"
        and lo = "60" and hi = "3600" and d = "60" and u = "py '' minutes''"])
    (simp_all add: assms)

lemma agree_68_8:
  assumes "pw \<noteq> []" "alphabet_size pw = 68" "length pw = 8"
  shows "estimate_crack_time pw = Inr (spec_crack_time pw)"
  by (rule agree_divided[where a = "457163239653376" and e = "17" and n = "7854004652978641"
        and ey = "1" and ny = "5957407973814910" and v = "2"
        and lo = "86400" and hi = "31536000" and d = "86400" and u = "py '' days''"])
    (simp_all add: assms)

lemma agree_68_9:
  assumes "pw \<noteq> []" "alphabet_size pw = 68" "length pw = 9"
  shows "estimate_crack_time pw = Inr (spec_crack_time pw)"
  by (rule agree_divided[where a = "31087100296429568" and e = "23" and n = "8344879943789806"
        and ey = "7" and ny = "6329745972178342" and v = "179"
        and lo = "86400" and hi = "31536000" and d = "86400" and u = "py '' days''"])
    (simp_all add: assms)

lemma agree_68_10:
  assumes "pw \<noteq> []" "alphabet_size pw = 68" "length pw = 10"
  shows "estimate_crack_time pw = Inr (spec_crack_time pw)"
  by (rule agree_divided[where a = "2113922820157210624" and e = "29" and n = "8866434940276669"
        and ey = "5" and ny = "4716961382006874" and v = "33"
        and lo = "31536000" and hi = "31536000000" and d = "31536000" and u = "py '' years''"])
    (simp_all add: assms)

lemma agree_alphabet_68:
  assumes "pw \<noteq> []" "alphabet_size pw = 68" "length pw \<le> 160"
  shows "estimate_crack_time pw = Inr (spec_crack_time pw)"
proof -
  have "1 \<le> length pw" using assms(1) by (cases pw) simp_all
  then
  consider "length pw = 1" | "length pw = 2" | "length pw = 3" | "length pw = 4"
    | "length pw = 5" | "length pw = 6" | "length pw = 7" | "length pw = 8"
    | "length pw = 9" | "length pw = 10" | "11 \<le> length pw"
    by atomize_elim arith
  then show ?thesis
  proof cases
    case 1
    then show ?thesis by (rule agree_68_1[OF assms(1,2)])
  next
    case 2
    then show ?thesis by (rule agree_68_2[OF assms(1,2)])
  next
    case 3
    then show ?thesis by (rule agree_68_3[OF assms(1,2)])
  next
    case 4
    then show ?thesis by (rule agree_68_4[OF assms(1,2)])
  next
    case 5
    then show ?thesis by (rule agree_68_5[OF assms(1,2)])
  next
    case 6
    then show ?thesis by (rule agree_68_6[OF assms(1,2)])
  next
    case 7
    then show ?thesis by (rule agree_68_7[OF assms(1,2)])
  next
    case 8
    then show ?thesis by (rule agree_68_8[OF assms(1,2)])
  next
    case 9
    then show ?thesis by (rule agree_68_9[OF assms(1,2)])
  next
    case 10
    then show ?thesis by (rule agree_68_10[OF assms(1,2)])
  next
    case 11
    have "(68::int) ^ 11 \<le> 68 ^ length pw" using 11 by (intro power_increasing) simp_all
    then have l: "2 ^ 35 * 2000000000 \<le> alphabet_size pw ^ length pw"
      unfolding assms(2) by simp
    have "(68::int) ^ length pw \<le> 68 ^ 160" using assms(3) by (intro power_increasing) simp_all
    then have u: "alphabet_size pw ^ length pw \<le> 2 ^ 1023 * 2000000000"
      unfolding assms(2) by simp
    show ?thesis using assms(1) l u by (rule agree_centuries)
  qed
qed

lemma agree_84_1:
  assumes "pw \<noteq> []" "alphabet_size pw = 84" "length pw = 1"
  shows "estimate_crack_time pw = Inr (spec_crack_time pw)"
  by (rule agree_instantly[where a = "84" and e = "-25" and n = "6346860552976803"])
    (simp_all add: assms)

lemma agree_84_2:
  assumes "pw \<noteq> []" "alphabet_size pw = 84" "length pw = 2"
  shows "estimate_crack_time pw = Inr (spec_crack_time pw)"
  by (rule agree_instantly[where a = "7056" and e = "-19" and n = "8330254475782054"])
    (simp_all add: assms)

lemma agree_84_3:
  assumes "pw \<noteq> []" "alphabet_size pw = 84" "length pw = 3"
  shows "estimate_crack_time pw = Inr (spec_crack_time pw)"
  by (rule agree_instantly[where a = "592704" and e = "-12" and n = "5466729499731973"])
    (simp_all add: assms)

lemma agree_84_4:
  assumes "pw \<noteq> []" "alphabet_size pw = 84" "length pw = 4"
  shows "estimate_crack_time pw = Inr (spec_crack_time pw)"
  by (rule agree_instantly[where a = "49787136" and e = "-6" and n = "7175082468398215"])
    (simp_all add: assms)

lemma agree_84_5:
  assumes "pw \<noteq> []" "alphabet_size pw = 84" "length pw = 5"
  shows "estimate_crack_time pw = Inr (spec_crack_time pw)"
  by (rule agree_seconds[where a = "4182119424" and e = "1" and n = "4708647869886328" and v = "2"])
    (simp_all add: assms)

lemma agree_84_6:
  assumes "pw \<noteq> []" "alphabet_size pw = 84" "length pw = 6"
  shows "estimate_crack_time pw = Inr (spec_crack_time pw)"
  by (rule agree_divided[where a = "351298031616" and e = "7" and n = "6180100329225806"
        and ey = "1" and ny = "6592107017840860" and v = "2"
        and lo = "60" and hi = "3600" and d = "60" and u = "py '' minutes''"])
    (simp_all add: assms)

lemma agree_84_7:
  assumes "pw \<noteq> []" "alphabet_size pw = 84" "length pw = 7"
  shows "estimate_crack_time pw = Inr (spec_crack_time pw)"
  by (rule agree_divided[where a = "29509034655744" and e = "13" and n = "8111381682108870"
        and ey = "2" and ny = "4614474912488602" and v = "4"
        and lo = "3600" and hi = "86400" and d = "3600" and u = "py '' hours''"])
    (simp_all add: assms)

lemma agree_84_8:
  assumes "pw \<noteq> []" "alphabet_size pw = 84" "length pw = 8"
  shows "estimate_crack_time pw = Inr (spec_crack_time pw)"
  by (rule agree_divided[where a = "2478758911082496" and e = "20" and n = "5323094228883946"
        and ey = "3" and ny = "8075331096855053" and v = "14"
        and lo = "86400" and hi = "31536000" and d = "86400" and u = "py '' days''"])
    (simp_all add: assms)

lemma agree_84_9:
  assumes "pw \<noteq> []" "alphabet_size pw = 84" "length pw = 9"
  shows "estimate_crack_time pw = Inr (spec_crack_time pw)"
  by (rule agree_divided[where a = "208215748530929664" and e = "26" and n = "6986561175410179"
        and ey = "1" and ny = "7433729448063829" and v = "3"
        and lo = "31536000" and hi = "31536000000" and d = "31536000" and u = "py '' years''"])
    (simp_all add: assms)

lemma agree_84_10:
  assumes "pw \<noteq> []" "alphabet_size pw = 84" "length pw = 10"
  shows "estimate_crack_time pw = Inr (spec_crack_time pw)"
  by (rule agree_divided[where a = "17490122876598091776" and e = "33" and n = "4584930771362930"
        and ey = "8" and ny = "4878384950291888" and v = "277"
        and lo = "31536000" and hi = "31536000000" and d = "31536000" and u = "py '' years''"])
    (simp_all add: assms)

lemma agree_alphabet_84:
  assumes "pw \<noteq> []" "alphabet_size pw = 84" "length pw \<le> 160"
  shows "estimate_crack_time pw = Inr (spec_crack_time pw)"
proof -
  have "1 \<le> length pw" using assms(1) by (cases pw) simp_all
  then
  consider "length pw = 1" | "length pw = 2" | "length pw = 3" | "length pw = 4"
    | "length pw = 5" | "length pw = 6" | "length pw = 7" | "length pw = 8"
    | "length pw = 9" | "length pw = 10" | "11 \<le> length pw"
    by atomize_elim arith
  then show ?thesis
  proof cases
    case 1
    then show ?thesis by (rule agree_84_1[OF assms(1,2)])
  next
    case 2
    then show ?thesis by (rule agree_84_2[OF assms(1,2)])
  next
    case 3
    then show ?thesis by (rule agree_84_3[OF assms(1,2)])
  next
    case 4
    then show ?thesis by (rule agree_84_4[OF assms(1,2)])
  next
    case 5
    then show ?thesis by (rule agree_84_5[OF assms(1,2)])
  next
    case 6
    then show ?thesis by (rule agree_84_6[OF assms(1,2)])
  next
    case 7
    then show ?thesis by (rule agree_84_7[OF assms(1,2)])
  next
    case 8
    then show ?thesis by (rule agree_84_8[OF assms(1,2)])
  next
    case 9
    then show ?thesis by (rule agree_84_9[OF assms(1,2)])
  next
    case 10
    then show ?thesis by (rule agree_84_10[OF assms(1,2)])
  next
    case 11
    have "(84::int) ^ 11 \<le> 84 ^ length pw" using 11 by (intro power_increasing) simp_all
    then have l: "2 ^ 35 * 2000000000 \<le> alphabet_size pw ^ length pw"
      unfolding assms(2) by simp
    have "(84::int) ^ length pw \<le> 84 ^ 160" using assms(3) by (intro power_increasing) simp_all
    then have u: "alphabet_size pw ^ length pw \<le> 2 ^ 1023 * 2000000000"
      unfolding assms(2) by simp
    show ?thesis using assms(1) l u by (rule agree_centuries)
  qed
qed

lemma agree_94_1:
  assumes "pw \<noteq> []" "alphabet_size pw = 94" "length pw = 1"
  shows "estimate_crack_time pw = Inr (spec_crack_time pw)"
  by (rule agree_instantly[where a = "94" and e = "-25" and n = "7102439190235946"])
    (simp_all add: assms)

lemma agree_94_2:
  assumes "pw \<noteq> []" "alphabet_size pw = 94" "length pw = 2"
  shows "estimate_crack_time pw = Inr (spec_crack_time pw)"
  by (rule agree_instantly[where a = "8836" and e = "-18" and n = "5215853780329523"])
    (simp_all add: assms)

lemma agree_94_3:
  assumes "pw \<noteq> []" "alphabet_size pw = 94" "length pw = 3"
  shows "estimate_crack_time pw = Inr (spec_crack_time pw)"
  by (rule agree_instantly[where a = "830584" and e = "-12" and n = "7660785239858987"])
    (simp_all add: assms)

lemma agree_94_4:
  assumes "pw \<noteq> []" "alphabet_size pw = 94" "length pw = 4"
  shows "estimate_crack_time pw = Inr (spec_crack_time pw)"
  by (rule agree_instantly[where a = "78074896" and e = "-5" and n = "5625889160521444"])
    (simp_all add: assms)

lemma agree_94_5:
  assumes "pw \<noteq> []" "alphabet_size pw = 94" "length pw = 5"
  shows "estimate_crack_time pw = Inr (spec_crack_time pw)"
  by (rule agree_seconds[where a = "7339040224" and e = "1" and n = "8263024704515870" and v = "3"])
    (simp_all add: assms)

lemma agree_94_6:
  assumes "pw \<noteq> []" "alphabet_size pw = 94" "length pw = 6"
  shows "estimate_crack_time pw = Inr (spec_crack_time pw)"
  by (rule agree_divided[where a = "689869781056" and e = "8" and n = "6068158767378842"
        and ey = "2" and ny = "6472702685204098" and v = "5"
        and lo = "60" and hi = "3600" and d = "60" and u = "py '' minutes''"])
    (simp_all add: assms)

lemma agree_94_7:
  assumes "pw \<noteq> []" "alphabet_size pw = 94" "length pw = 7"
  shows "estimate_crack_time pw = Inr (spec_crack_time pw)"
  by (rule agree_divided[where a = "64847759419264" and e = "14" and n = "8912608189587675"
        and ey = "3" and ny = "5070283770076544" and v = "9"
        and lo = "3600" and hi = "86400" and d = "3600" and u = "py '' hours''"])
    (simp_all add: assms)

lemma agree_94_8:
  assumes "pw \<noteq> []" "alphabet_size pw = 94" "length pw = 8"
  shows "estimate_crack_time pw = Inr (spec_crack_time pw)"
  by (rule agree_divided[where a = "6095689385410816" and e = "21" and n = "6545196639228449"
        and ey = "5" and ny = "4964652858199949" and v = "35"
        and lo = "86400" and hi = "31536000" and d = "86400" and u = "py '' days''"])
    (simp_all add: assms)

lemma agree_94_9:
  assumes "pw \<noteq> []" "alphabet_size pw = 94" "length pw = 9"
  shows "estimate_crack_time pw = Inr (spec_crack_time pw)"
  by (rule agree_divided[where a = "572994802228616704" and e = "28" and n = "4806628781933392"
        and ey = "3" and ny = "5114272533378578" and v = "9"
        and lo = "31536000" and hi = "31536000000" and d = "31536000" and u = "py '' years''"])
    (simp_all add: assms)

lemma agree_94_10:
  assumes "pw \<noteq> []" "alphabet_size pw = 94" "length pw = 10"
  shows "estimate_crack_time pw = Inr (spec_crack_time pw)"
  by (rule agree_divided[where a = "53861511409489970176" and e = "34" and n = "7059736023464669"
        and ey = "9" and ny = "7511587783399786" and v = "853"
        and lo = "31536000" and hi = "31536000000" and d = "31536000" and u = "py '' years''"])
    (simp_all add: assms)

lemma agree_alphabet_94:
  assumes "pw \<noteq> []" "alphabet_size pw = 94" "length pw \<le> 160"
  shows "estimate_crack_time pw = Inr (spec_crack_time pw)"
proof -
  have "1 \<le> length pw" using assms(1) by (cases pw) simp_all
  then
  consider "length pw = 1" | "length pw = 2" | "length pw = 3" | "length pw = 4"
    | "length pw = 5" | "length pw = 6" | "length pw = 7" | "length pw = 8"
    | "length pw = 9" | "length pw = 10" | "11 \<le> length pw"
    by atomize_elim arith
  then show ?thesis
  proof cases
    case 1
    then show ?thesis by (rule agree_94_1[OF assms(1,2)])
  next
    case 2
    then show ?thesis by (rule agree_94_2[OF assms(1,2)])
  next
    case 3
    then show ?thesis by (rule agree_94_3[OF assms(1,2)])
  next
    case 4
    then show ?thesis by (rule agree_94_4[OF assms(1,2)])
  next
    case 5
    then show ?thesis by (rule agree_94_5[OF assms(1,2)])
  next
    case 6
    then show ?thesis by (rule agree_94_6[OF assms(1,2)])
  next
    case 7
    then show ?thesis by (rule agree_94_7[OF assms(1,2)])
  next
    case 8
    then show ?thesis by (rule agree_94_8[OF assms(1,2)])
  next
    case 9
    then show ?thesis by (rule agree_94_9[OF assms(1,2)])
  next
    case 10
    then show ?thesis by (rule agree_94_10[OF assms(1,2)])
  next
    case 11
    have "(94::int) ^ 11 \<le> 94 ^ length pw" using 11 by (intro power_increasing) simp_all
    then have l: "2 ^ 35 * 2000000000 \<le> alphabet_size pw ^ length pw"
      unfolding assms(2) by simp
    have "(94::int) ^ length pw \<le> 94 ^ 160" using assms(3) by (intro power_increasing) simp_all
    then have u: "alphabet_size pw ^ length pw \<le> 2 ^ 1023 * 2000000000"
      unfolding assms(2) by simp
    show ?thesis using assms(1) l u by (rule agree_centuries)
  qed
qed

lemma alphabet_size_cases:
  assumes "pw \<noteq> []"
  shows "alphabet_size pw \<in> {10, 26, 32, 36, 42, 52, 58, 62, 68, 84, 94}"
proof -
  have "alphabet_size pw \<in> {0, 10, 26, 32, 36, 42, 52, 58, 62, 68, 84, 94}"
    by (simp add: alphabet_size_def)
  then show ?thesis using alphabet_size_ge[OF assms] by auto
qed

lemma estimate_crack_time_agrees:
  assumes "length pw \<le> 160"
  shows "estimate_crack_time pw = Inr (spec_crack_time pw)"
proof (cases "pw = []")
  case True
  then show ?thesis by (simp add: estimate_crack_time_def spec_crack_time_def)
next
  case False
  from alphabet_size_cases[OF False]
  consider "alphabet_size pw = 10" | "alphabet_size pw = 26" | "alphabet_size pw = 32" | "alphabet_size pw = 36" | "alphabet_size pw = 42" | "alphabet_size pw = 52"
    | "alphabet_size pw = 58" | "alphabet_size pw = 62" | "alphabet_size pw = 68" | "alphabet_size pw = 84" | "alphabet_size pw = 94"
    by atomize_elim auto
  then show ?thesis
  proof cases
    case 1
    with False show ?thesis using assms by (rule agree_alphabet_10)
  next
    case 2
    with False show ?thesis using assms by (rule agree_alphabet_26)
  next
    case 3
    with False show ?thesis using assms by (rule agree_alphabet_32)
  next
    case 4
    with False show ?thesis using assms by (rule agree_alphabet_36)
  next
    case 5
    with False show ?thesis using assms by (rule agree_alphabet_42)
  next
    case 6
    with False show ?thesis using assms by (rule agree_alphabet_52)
  next
    case 7
    with False show ?thesis using assms by (rule agree_alphabet_58)
  next
    case 8
    with False show ?thesis using assms by (rule agree_alphabet_62)
  next
    case 9
    with False show ?thesis using assms by (rule agree_alphabet_68)
  next
    case 10
    with False show ?thesis using assms by (rule agree_alphabet_84)
  next
    case 11
    with False show ?thesis using assms by (rule agree_alphabet_94)
  qed
qed

end
